theory Spec2Isabelle
  imports Main "HOL-Library.Word"
begin

section \<open>Bytes and errors\<close>

text \<open>
  \<^verbatim>\<open>byteutils.Hash\<close> is a Go byte slice; hashes, addresses, payloads and signatures
  are all byte lists here.
\<close>

type_synonym byte = "8 word"
type_synonym bytes = "byte list"

text \<open>
  The error values of \<^verbatim>\<open>core\<close> that \<^verbatim>\<open>transaction.go\<close> returns, the three
  errors of the checked 128-bit arithmetic, and \<open>ErrExternal\<close> for every error that
  an external collaborator produces (world-state I/O, the signer, the marshaller, a
  payload's execution).
\<close>

datatype error =
    ErrZeroGasPrice
  | ErrZeroGasLimit
  | ErrInvalidArgument
  | ErrNilArgument
  | ErrTxDataPayLoadOutOfMaxLength
  | ErrInvalidTransactionData
  | ErrInvalidProtoToTransaction
  | ErrOutOfGasLimit
  | ErrInsufficientBalance
  | ErrInvalidTxPayloadType
  | ErrContractCheckFailed
  | ErrSmallTransactionNonce
  | ErrLargeTransactionNonce
  | ErrInvalidChainID
  | ErrInvalidTransactionHash
  | ErrInvalidTransactionSigner
  | ErrInvalidAddress
  | ErrAccountNotFound
  | ErrUint128Overflow
  | ErrUint128Underflow
  | ErrUint128InvalidBytesSize
  | ErrExternal string

section \<open>Uint128\<close>

text \<open>
  Modelled from the spec: package \<^verbatim>\<open>util\<close> (the type \<^verbatim>\<open>Uint128\<close>) is not among the
  source files. The spec gives an unsigned 128-bit integer with checked arithmetic (every
  add, sub and mul fails with Overflow or Underflow rather than wrapping) and a fixed
  16-byte big-endian serialization. A value is a natural number; the operations check
  the 128-bit range.
\<close>

type_synonym Uint128 = nat

definition Uint128Bytes :: nat where
  "Uint128Bytes = 16"

definition Uint128_Validate :: "nat \<Rightarrow> error + Uint128" where
  "Uint128_Validate n = (if n < 2 ^ 128 then Inr n else Inl ErrUint128Overflow)"

definition NewUint128 :: Uint128 where
  "NewUint128 = 0"

definition NewUint128FromInt :: "int \<Rightarrow> error + Uint128" where
  "NewUint128FromInt i = (if i < 0 then Inl ErrUint128Underflow else Uint128_Validate (nat i))"

definition Uint128_Add :: "Uint128 \<Rightarrow> Uint128 \<Rightarrow> error + Uint128" where
  "Uint128_Add a b = Uint128_Validate (a + b)"

definition Uint128_Sub :: "Uint128 \<Rightarrow> Uint128 \<Rightarrow> error + Uint128" where
  "Uint128_Sub a b = (if a < b then Inl ErrUint128Underflow else Uint128_Validate (a - b))"

definition Uint128_Mul :: "Uint128 \<Rightarrow> Uint128 \<Rightarrow> error + Uint128" where
  "Uint128_Mul a b = Uint128_Validate (a * b)"

definition Uint128_Cmp :: "Uint128 \<Rightarrow> Uint128 \<Rightarrow> int" where
  "Uint128_Cmp a b = (if a < b then - 1 else if a = b then 0 else 1)"

text \<open>Big-endian bytes of a number, on exactly \<open>k\<close> bytes, and the number of a byte list.\<close>

fun be_bytes :: "nat \<Rightarrow> nat \<Rightarrow> bytes" where
  "be_bytes 0 n = []"
| "be_bytes (Suc k) n = be_bytes k (n div 256) @ [of_nat (n mod 256)]"

fun be_nat_acc :: "nat \<Rightarrow> bytes \<Rightarrow> nat" where
  "be_nat_acc acc [] = acc"
| "be_nat_acc acc (b # bs) = be_nat_acc (acc * 256 + unat b) bs"

definition be_nat :: "bytes \<Rightarrow> nat" where
  "be_nat bs = be_nat_acc 0 bs"

definition ToFixedSizeByteSlice :: "Uint128 \<Rightarrow> error + bytes" where
  "ToFixedSizeByteSlice u =
     (if u < 2 ^ 128 then Inr (be_bytes Uint128Bytes u) else Inl ErrUint128Overflow)"

definition NewUint128FromFixedSizeByteSlice :: "bytes \<Rightarrow> error + Uint128" where
  "NewUint128FromFixedSizeByteSlice bs =
     (if length bs \<noteq> Uint128Bytes then Inl ErrUint128InvalidBytesSize else Inr (be_nat bs))"

section \<open>Constants of the transaction module\<close>

definition TxHashByteLength :: nat where
  "TxHashByteLength = 32"

definition TransactionMaxGasPrice :: Uint128 where
  "TransactionMaxGasPrice = 50000000000"


definition TransactionGasPrice :: Uint128 where
  "TransactionGasPrice = 1000000"

definition MinGasCountPerTransaction :: Uint128 where
  "MinGasCountPerTransaction = 20000"

definition GasCountPerByte :: Uint128 where
  "GasCountPerByte = 1"

definition MaxDataPayLoadLength :: nat where
  "MaxDataPayLoadLength = 128 * 1024"

section \<open>Transactions\<close>

text \<open>
  \<^verbatim>\<open>corepb.Data\<close>, \<^verbatim>\<open>Address\<close> and \<^verbatim>\<open>Transaction\<close>. The fields of a transaction
  carry the prefix \<open>tx_\<close> (\<open>from\<close> and \<open>value\<close> are reserved words of the proof
  language). \<^verbatim>\<open>nonce\<close> is a \<^verbatim>\<open>uint64\<close>, \<^verbatim>\<open>timestamp\<close> an \<^verbatim>\<open>int64\<close>
  (read with \<open>sint\<close>), \<^verbatim>\<open>chainID\<close> a \<^verbatim>\<open>uint32\<close>. The declaration of
  \<^verbatim>\<open>keystore.Algorithm\<close> is not among the source files; the spec gives \<open>alg: u32\<close>.
\<close>

record Data =
  data_Type :: string
  data_Payload :: bytes

record Address =
  address :: bytes

record Transaction =
  tx_hash :: bytes
  tx_from :: Address
  tx_to :: Address
  tx_value :: Uint128
  tx_nonce :: "64 word"
  tx_timestamp :: "64 word"
  tx_data :: Data
  tx_chainID :: "32 word"
  tx_gasPrice :: Uint128
  tx_gasLimit :: Uint128
  tx_alg :: "32 word"
  tx_sign :: bytes

section \<open>World state\<close>

text \<open>
  Modelled from the spec: the \<^verbatim>\<open>WorldState\<close> interface and \<^verbatim>\<open>state.Account\<close> are
  implemented outside the source files. The spec gives a snapshot-capable key/value
  interface with \<^verbatim>\<open>GetOrCreateUserAccount\<close>, \<^verbatim>\<open>GetContractAccount\<close>, \<^verbatim>\<open>PutTx\<close>,
  \<^verbatim>\<open>GetTx\<close>, \<^verbatim>\<open>RecordGas\<close>, \<^verbatim>\<open>RecordEvent\<close>, \<^verbatim>\<open>FetchEvents\<close> and \<^verbatim>\<open>Reset\<close>
  (roll back uncommitted mutations to the most recent checkpoint); three logical stores
  (accounts, txs, events); accounts holding a Uint128 balance and a u64 nonce, missing
  accounts being created with zero balance and nonce zero; and I/O errors that any
  operation may return. The stores are maps, gas records and events are kept in call
  order, the checkpoint is a saved copy of the stores, and \<open>io_error\<close> says which
  operations fail with an I/O error. An account handle of the Go code is a pointer
  into the store: here it is the account's address, and a mutation through the handle
  is an update of the store at that address.
\<close>

record Account =
  acc_balance :: Uint128
  acc_nonce :: "64 word"
  acc_birthPlace :: bytes

record Event =
  ev_Topic :: string
  ev_Data :: string

record WSData =
  accounts :: "bytes \<Rightarrow> Account option"
  txs :: "bytes \<Rightarrow> bytes option"
  events :: "bytes \<Rightarrow> Event list"
  gasConsumed :: "(string \<times> Uint128) list"

datatype WsOp =
    OpGetOrCreateUserAccount
  | OpGetContractAccount
  | OpPutTx
  | OpGetTx
  | OpRecordGas
  | OpRecordEvent
  | OpFetchEvents
  | OpReset

record WorldState =
  current :: WSData
  saved :: WSData
  io_error :: "WsOp \<Rightarrow> error option"

definition newAccount :: Account where
  "newAccount = \<lparr>acc_balance = 0, acc_nonce = 0, acc_birthPlace = []\<rparr>"

definition putAccount :: "bytes \<Rightarrow> Account \<Rightarrow> WorldState \<Rightarrow> WorldState" where
  "putAccount addr a ws =
     ws\<lparr>current := (current ws)\<lparr>accounts := (accounts (current ws))(addr \<mapsto> a)\<rparr>\<rparr>"

definition GetOrCreateUserAccount :: "bytes \<Rightarrow> WorldState \<Rightarrow> error + (Account \<times> WorldState)" where
  "GetOrCreateUserAccount addr ws =
     (case io_error ws OpGetOrCreateUserAccount of
        Some e \<Rightarrow> Inl e
      | None \<Rightarrow>
          (case accounts (current ws) addr of
             Some a \<Rightarrow> Inr (a, ws)
           | None \<Rightarrow> Inr (newAccount, putAccount addr newAccount ws)))"

definition GetContractAccount :: "bytes \<Rightarrow> WorldState \<Rightarrow> error + Account" where
  "GetContractAccount addr ws =
     (case io_error ws OpGetContractAccount of
        Some e \<Rightarrow> Inl e
      | None \<Rightarrow>
          (case accounts (current ws) addr of
             Some a \<Rightarrow> Inr a
           | None \<Rightarrow> Inl ErrAccountNotFound))"

definition AddBalance :: "bytes \<Rightarrow> Uint128 \<Rightarrow> WorldState \<Rightarrow> error + WorldState" where
  "AddBalance addr v ws =
     (case accounts (current ws) addr of
        None \<Rightarrow> Inl ErrAccountNotFound
      | Some a \<Rightarrow>
          (case Uint128_Add (acc_balance a) v of
             Inl e \<Rightarrow> Inl e
           | Inr b \<Rightarrow> Inr (putAccount addr (a\<lparr>acc_balance := b\<rparr>) ws)))"

definition SubBalance :: "bytes \<Rightarrow> Uint128 \<Rightarrow> WorldState \<Rightarrow> error + WorldState" where
  "SubBalance addr v ws =
     (case accounts (current ws) addr of
        None \<Rightarrow> Inl ErrAccountNotFound
      | Some a \<Rightarrow>
          (case Uint128_Sub (acc_balance a) v of
             Inl e \<Rightarrow> Inl e
           | Inr b \<Rightarrow> Inr (putAccount addr (a\<lparr>acc_balance := b\<rparr>) ws)))"

definition RecordGas :: "string \<Rightarrow> Uint128 \<Rightarrow> WorldState \<Rightarrow> error + WorldState" where
  "RecordGas who gasCost ws =
     (case io_error ws OpRecordGas of
        Some e \<Rightarrow> Inl e
      | None \<Rightarrow>
          Inr (ws\<lparr>current := (current ws)\<lparr>gasConsumed :=
                 gasConsumed (current ws) @ [(who, gasCost)]\<rparr>\<rparr>))"

definition RecordEvent :: "bytes \<Rightarrow> Event \<Rightarrow> WorldState \<Rightarrow> error + WorldState" where
  "RecordEvent h ev ws =
     (case io_error ws OpRecordEvent of
        Some e \<Rightarrow> Inl e
      | None \<Rightarrow>
          Inr (ws\<lparr>current := (current ws)\<lparr>events :=
                 (events (current ws))(h := events (current ws) h @ [ev])\<rparr>\<rparr>))"

definition FetchEvents :: "bytes \<Rightarrow> WorldState \<Rightarrow> error + Event list" where
  "FetchEvents h ws =
     (case io_error ws OpFetchEvents of
        Some e \<Rightarrow> Inl e
      | None \<Rightarrow> Inr (events (current ws) h))"

definition Reset :: "WorldState \<Rightarrow> error + WorldState" where
  "Reset ws =
     (case io_error ws OpReset of
        Some e \<Rightarrow> Inl e
      | None \<Rightarrow> Inr (ws\<lparr>current := saved ws\<rparr>))"

text \<open>The nonce an account lookup reports: zero for an account that does not exist yet.\<close>

definition currentNonceOf :: "WorldState \<Rightarrow> bytes \<Rightarrow> 64 word" where
  "currentNonceOf ws addr =
     (case accounts (current ws) addr of None \<Rightarrow> 0 | Some a \<Rightarrow> acc_nonce a)"

section \<open>Admission: CheckTransaction\<close>

text \<open>
  The result is the pair of the Go function (give-back flag, error; \<open>None\<close> is
  \<^verbatim>\<open>nil\<close>) and the world state after the call. \<^verbatim>\<open>currentNonce+1\<close> is a
  \<^verbatim>\<open>uint64\<close> addition.
\<close>

definition CheckTransaction :: "Transaction \<Rightarrow> WorldState \<Rightarrow> bool \<times> error option \<times> WorldState" where
  "CheckTransaction tx ws =
     (case GetOrCreateUserAccount (address (tx_from tx)) ws of
        Inl err \<Rightarrow> (True, Some err, ws)
      | Inr (fromAcc, ws1) \<Rightarrow>
          (let currentNonce = acc_nonce fromAcc in
           if tx_nonce tx < currentNonce + 1 then (False, Some ErrSmallTransactionNonce, ws1)
           else if tx_nonce tx > currentNonce + 1 then (True, Some ErrLargeTransactionNonce, ws1)
           else (False, None, ws1)))"

text \<open>What a caller observes of a result: the flag and the error.\<close>

definition outcome :: "bool \<times> error option \<times> WorldState \<Rightarrow> bool \<times> error option" where
  "outcome r = (fst r, fst (snd r))"

section \<open>External collaborators\<close>

text \<open>
  \<^verbatim>\<open>TransactionEvent\<close> is the JSON object of a result event; \<^verbatim>\<open>Status\<close> is an
  \<^verbatim>\<open>int8\<close>.
\<close>

record TransactionEvent =
  te_Hash :: string
  te_Status :: "8 word"
  te_GasUsed :: string
  te_Error :: string

text \<open>
  \<^verbatim>\<open>Block\<close> is declared outside the source files; the transaction code only calls
  \<^verbatim>\<open>block.WorldState()\<close> and hands the block on to the payload.
\<close>

record Block =
  worldState :: WorldState

text \<open>
  A loaded payload (\<^verbatim>\<open>TxPayload\<close>): its base gas and its execution, an opaque function
  of the virtual machine that returns the gas consumed, the result string and the
  execution error, and that may change the world state it is given.
\<close>

record TxPayload =
  BaseGasCount :: Uint128
  Execute :: "Transaction \<Rightarrow> Block \<Rightarrow> WorldState \<Rightarrow> Uint128 \<times> string \<times> error option \<times> WorldState"

text \<open>A signer (\<^verbatim>\<open>keystore.Signature\<close>): \<^verbatim>\<open>Sign\<close> and \<^verbatim>\<open>Algorithm\<close>.\<close>

record Signature =
  sig_Sign :: "bytes \<Rightarrow> error + bytes"
  sig_Algorithm :: "32 word"

text \<open>
  The functions that \<^verbatim>\<open>transaction.go\<close> calls and that live in other packages or
  files: the SHA3-256 hasher, the protobuf and JSON marshallers, the string encodings
  of addresses, hashes, Uint128 values and errors, the address parser, the recovery of
  the signer from a signature, the three payload loaders and the clock. Every function of the transaction module takes them as the
  parameter \<open>env\<close>.
\<close>

record Env =
  sha3_256 :: "bytes \<Rightarrow> bytes"
  proto_Marshal :: "Data \<Rightarrow> error + bytes"
  json_Marshal :: "TransactionEvent \<Rightarrow> error + string"
  json_Unmarshal :: "string \<Rightarrow> error + TransactionEvent"
  Address_String :: "Address \<Rightarrow> string"
  Hash_String :: "bytes \<Rightarrow> string"
  Uint128_String :: "Uint128 \<Rightarrow> string"
  Error_text :: "error \<Rightarrow> string"
  AddressParseFromBytes :: "bytes \<Rightarrow> error + Address"
  RecoverSignerFromSignature :: "32 word \<Rightarrow> bytes \<Rightarrow> bytes \<Rightarrow> error + Address"
  LoadBinaryPayload :: "bytes \<Rightarrow> error + TxPayload"
  LoadDeployPayload :: "bytes \<Rightarrow> error + TxPayload"
  LoadCallPayload :: "bytes \<Rightarrow> error + TxPayload"
  time_Now_Unix :: "64 word"

text \<open>
  Modelled from the spec: the payload type names, the event topic and the two status
  values are constants declared outside the source files. The spec names the payload
  types Binary, Deploy and Call, gives the topic string \<open>chain.transactionResult\<close>,
  and status 0 for success and 1 for failure.
\<close>

definition TxPayloadBinaryType :: string where
  "TxPayloadBinaryType = ''binary''"

definition TxPayloadDeployType :: string where
  "TxPayloadDeployType = ''deploy''"

definition TxPayloadCallType :: string where
  "TxPayloadCallType = ''call''"

definition TopicTransactionExecutionResult :: string where
  "TopicTransactionExecutionResult = ''chain.transactionResult''"

definition TxExecutionSuccess :: "8 word" where
  "TxExecutionSuccess = 0"

definition TxExecutionFailed :: "8 word" where
  "TxExecutionFailed = 1"

section \<open>Protobuf conversion\<close>

text \<open>
  \<^verbatim>\<open>corepb.Transaction\<close>; its \<^verbatim>\<open>Data\<close> field is a pointer and may be \<^verbatim>\<open>nil\<close>.
  A \<^verbatim>\<open>proto.Message\<close> is a transaction message (possibly a \<^verbatim>\<open>nil\<close> pointer) or a
  message of another type.
\<close>

record pbTransaction =
  pb_Hash :: bytes
  pb_From :: bytes
  pb_To :: bytes
  pb_Value :: bytes
  pb_Nonce :: "64 word"
  pb_Timestamp :: "64 word"
  pb_Data :: "Data option"
  pb_ChainId :: "32 word"
  pb_GasPrice :: bytes
  pb_GasLimit :: bytes
  pb_Alg :: "32 word"
  pb_Sign :: bytes

datatype ProtoMessage = MsgTransaction "pbTransaction option" | MsgOther

definition ToProto :: "Transaction \<Rightarrow> error + ProtoMessage" where
  "ToProto tx =
     (case ToFixedSizeByteSlice (tx_value tx) of
        Inl err \<Rightarrow> Inl err
      | Inr val \<Rightarrow>
     (case ToFixedSizeByteSlice (tx_gasPrice tx) of
        Inl err \<Rightarrow> Inl err
      | Inr gasPrice \<Rightarrow>
     (case ToFixedSizeByteSlice (tx_gasLimit tx) of
        Inl err \<Rightarrow> Inl err
      | Inr gasLimit \<Rightarrow>
          Inr (MsgTransaction (Some
            \<lparr>pb_Hash = tx_hash tx,
             pb_From = address (tx_from tx),
             pb_To = address (tx_to tx),
             pb_Value = val,
             pb_Nonce = tx_nonce tx,
             pb_Timestamp = tx_timestamp tx,
             pb_Data = Some (tx_data tx),
             pb_ChainId = tx_chainID tx,
             pb_GasPrice = gasPrice,
             pb_GasLimit = gasLimit,
             pb_Alg = ucast (tx_alg tx),
             pb_Sign = tx_sign tx\<rparr>)))))"

text \<open>
  \<^verbatim>\<open>FromProto\<close> assigns the receiver's fields one by one and returns at the first
  error, so the result holds the error (\<open>None\<close> is \<^verbatim>\<open>nil\<close>) and the receiver as it
  stands at the return.
\<close>

definition FromProto :: "Env \<Rightarrow> Transaction \<Rightarrow> ProtoMessage \<Rightarrow> error option \<times> Transaction" where
  "FromProto env tx message =
     (case message of
        MsgOther \<Rightarrow> (Some ErrInvalidProtoToTransaction, tx)
      | MsgTransaction None \<Rightarrow> (Some ErrInvalidProtoToTransaction, tx)
      | MsgTransaction (Some msg) \<Rightarrow>
     (let tx1 = tx\<lparr>tx_hash := pb_Hash msg\<rparr> in
      case AddressParseFromBytes env (pb_From msg) of
        Inl err \<Rightarrow> (Some err, tx1)
      | Inr fromA \<Rightarrow>
     (let tx2 = tx1\<lparr>tx_from := fromA\<rparr> in
      case AddressParseFromBytes env (pb_To msg) of
        Inl err \<Rightarrow> (Some err, tx2)
      | Inr toA \<Rightarrow>
     (let tx3 = tx2\<lparr>tx_to := toA\<rparr> in
      case NewUint128FromFixedSizeByteSlice (pb_Value msg) of
        Inl err \<Rightarrow> (Some err, tx3)
      | Inr val \<Rightarrow>
     (let tx4 = tx3\<lparr>tx_value := val, tx_nonce := pb_Nonce msg,
                    tx_timestamp := pb_Timestamp msg, tx_chainID := pb_ChainId msg\<rparr> in
      case pb_Data msg of
        None \<Rightarrow> (Some ErrInvalidTransactionData, tx4)
      | Some d \<Rightarrow>
          if length (data_Payload d) > MaxDataPayLoadLength
          then (Some ErrTxDataPayLoadOutOfMaxLength, tx4)
          else
     (let tx5 = tx4\<lparr>tx_data := d\<rparr> in
      case NewUint128FromFixedSizeByteSlice (pb_GasPrice msg) of
        Inl err \<Rightarrow> (Some err, tx5)
      | Inr gasPrice \<Rightarrow>
     (let tx6 = tx5\<lparr>tx_gasPrice := gasPrice\<rparr> in
      case NewUint128FromFixedSizeByteSlice (pb_GasLimit msg) of
        Inl err \<Rightarrow> (Some err, tx6)
      | Inr gasLimit \<Rightarrow>
          (None, tx6\<lparr>tx_gasLimit := gasLimit, tx_alg := ucast (pb_Alg msg),
                     tx_sign := pb_Sign msg\<rparr>))))))))"

section \<open>Construction\<close>

text \<open>
  The pointer arguments of \<^verbatim>\<open>NewTransaction\<close> may be \<^verbatim>\<open>nil\<close> (\<open>None\<close>). The hash, the
  algorithm and the signature of the new transaction are Go zero values.
\<close>

definition NewTransaction ::
  "Env \<Rightarrow> 32 word \<Rightarrow> Address option \<Rightarrow> Address option \<Rightarrow> Uint128 option \<Rightarrow> 64 word \<Rightarrow>
   string \<Rightarrow> bytes \<Rightarrow> Uint128 option \<Rightarrow> Uint128 option \<Rightarrow> error + Transaction" where
  "NewTransaction env chainID fromA toA val nonce payloadType payload gasPrice gasLimit =
     (case gasPrice of
        None \<Rightarrow> Inl ErrZeroGasPrice
      | Some gp \<Rightarrow>
          if Uint128_Cmp gp NewUint128 \<le> 0 then Inl ErrZeroGasPrice
          else
     (case gasLimit of
        None \<Rightarrow> Inl ErrZeroGasLimit
      | Some gl \<Rightarrow>
          if Uint128_Cmp gl NewUint128 \<le> 0 then Inl ErrZeroGasLimit
          else
     (case (fromA, toA, val) of
        (Some f, Some t, Some v) \<Rightarrow>
          if length payload > MaxDataPayLoadLength then Inl ErrTxDataPayLoadOutOfMaxLength
          else Inr \<lparr>tx_hash = [],
                    tx_from = f,
                    tx_to = t,
                    tx_value = v,
                    tx_nonce = nonce,
                    tx_timestamp = time_Now_Unix env,
                    tx_data = \<lparr>data_Type = payloadType, data_Payload = payload\<rparr>,
                    tx_chainID = chainID,
                    tx_gasPrice = gp,
                    tx_gasLimit = gl,
                    tx_alg = 0,
                    tx_sign = []\<rparr>
      | _ \<Rightarrow> Inl ErrInvalidArgument)))"

section \<open>Gas arithmetic\<close>

definition DataLen :: "Transaction \<Rightarrow> int" where
  "DataLen tx = int (length (data_Payload (tx_data tx)))"

definition GasCountOfTxBase :: "Transaction \<Rightarrow> error + Uint128" where
  "GasCountOfTxBase tx =
     (let txGas = MinGasCountPerTransaction in
      if DataLen tx > 0 then
        (case NewUint128FromInt (DataLen tx) of
           Inl err \<Rightarrow> Inl err
         | Inr dataLen \<Rightarrow>
        (case Uint128_Mul dataLen GasCountPerByte of
           Inl err \<Rightarrow> Inl err
         | Inr dataGas \<Rightarrow>
        (case Uint128_Add txGas dataGas of
           Inl err \<Rightarrow> Inl err
         | Inr txGas' \<Rightarrow> Inr txGas')))
      else Inr txGas)"

definition MinBalanceRequired :: "Transaction \<Rightarrow> error + Uint128" where
  "MinBalanceRequired tx =
     (case Uint128_Mul (tx_gasPrice tx) (tx_gasLimit tx) of
        Inl err \<Rightarrow> Inl err
      | Inr total0 \<Rightarrow>
     (case Uint128_Add total0 (tx_value tx) of
        Inl err \<Rightarrow> Inl err
      | Inr total' \<Rightarrow> Inr total'))"

definition LoadPayload :: "Env \<Rightarrow> Transaction \<Rightarrow> error + TxPayload" where
  "LoadPayload env tx =
     (if data_Type (tx_data tx) = TxPayloadBinaryType
        then LoadBinaryPayload env (data_Payload (tx_data tx))
      else if data_Type (tx_data tx) = TxPayloadDeployType
        then LoadDeployPayload env (data_Payload (tx_data tx))
      else if data_Type (tx_data tx) = TxPayloadCallType
        then LoadCallPayload env (data_Payload (tx_data tx))
      else Inl ErrInvalidTxPayloadType)"


section \<open>Canonical hash and signing\<close>

text \<open>
  \<^verbatim>\<open>byteutils.FromUint64\<close>, \<^verbatim>\<open>FromInt64\<close> and \<^verbatim>\<open>FromUint32\<close> write a number
  big-endian on 8, 8 and 4 bytes.
\<close>

definition FromUint64 :: "64 word \<Rightarrow> bytes" where
  "FromUint64 w = be_bytes 8 (unat w)"

definition FromInt64 :: "64 word \<Rightarrow> bytes" where
  "FromInt64 w = be_bytes 8 (unat w)"

definition FromUint32 :: "32 word \<Rightarrow> bytes" where
  "FromUint32 w = be_bytes 4 (unat w)"

definition calHash :: "Env \<Rightarrow> Transaction \<Rightarrow> error + bytes" where
  "calHash env tx =
     (case ToFixedSizeByteSlice (tx_value tx) of
        Inl err \<Rightarrow> Inl err
      | Inr val \<Rightarrow>
     (case proto_Marshal env (tx_data tx) of
        Inl err \<Rightarrow> Inl err
      | Inr dat \<Rightarrow>
     (case ToFixedSizeByteSlice (tx_gasPrice tx) of
        Inl err \<Rightarrow> Inl err
      | Inr gasPrice \<Rightarrow>
     (case ToFixedSizeByteSlice (tx_gasLimit tx) of
        Inl err \<Rightarrow> Inl err
      | Inr gasLimit \<Rightarrow>
          Inr (sha3_256 env
                (address (tx_from tx) @ address (tx_to tx) @ val @ FromUint64 (tx_nonce tx) @
                 FromInt64 (tx_timestamp tx) @ dat @ FromUint32 (tx_chainID tx) @
                 gasPrice @ gasLimit))))))"

text \<open>
  \<^verbatim>\<open>Sign\<close> returns the error and the receiver as it stands at the return; the signer
  argument may be \<^verbatim>\<open>nil\<close>.
\<close>

definition Sign :: "Env \<Rightarrow> Transaction \<Rightarrow> Signature option \<Rightarrow> error option \<times> Transaction" where
  "Sign env tx signature =
     (case signature of
        None \<Rightarrow> (Some ErrNilArgument, tx)
      | Some s \<Rightarrow>
     (case calHash env tx of
        Inl err \<Rightarrow> (Some err, tx)
      | Inr hash \<Rightarrow>
     (case sig_Sign s hash of
        Inl err \<Rightarrow> (Some err, tx)
      | Inr sign \<Rightarrow>
          (None, tx\<lparr>tx_hash := hash, tx_alg := sig_Algorithm s, tx_sign := sign\<rparr>))))"

text \<open>\<^verbatim>\<open>verifySign\<close> and \<^verbatim>\<open>VerifyIntegrity\<close> return the error, \<open>None\<close> for \<^verbatim>\<open>nil\<close>.\<close>

definition verifySign :: "Env \<Rightarrow> Transaction \<Rightarrow> error option" where
  "verifySign env tx =
     (case RecoverSignerFromSignature env (tx_alg tx) (tx_hash tx) (tx_sign tx) of
        Inl err \<Rightarrow> Some err
      | Inr signer \<Rightarrow>
          if address (tx_from tx) \<noteq> address signer then Some ErrInvalidTransactionSigner
          else None)"

definition VerifyIntegrity :: "Env \<Rightarrow> Transaction \<Rightarrow> 32 word \<Rightarrow> error option" where
  "VerifyIntegrity env tx chainID =
     (if tx_chainID tx \<noteq> chainID then Some ErrInvalidChainID
      else
     (case calHash env tx of
        Inl err \<Rightarrow> Some err
      | Inr wantedHash \<Rightarrow>
          if wantedHash \<noteq> tx_hash tx then Some ErrInvalidTransactionHash
          else verifySign env tx))"

section \<open>Execution\<close>

text \<open>
  Every function that works on the world state returns the state after the call beside
  the values of the Go function.
\<close>

definition checkBalance :: "Transaction \<Rightarrow> Block \<Rightarrow> WorldState \<Rightarrow> bool \<times> error option \<times> WorldState" where
  "checkBalance tx block ws =
     (case GetOrCreateUserAccount (address (tx_from tx)) ws of
        Inl err \<Rightarrow> (True, Some err, ws)
      | Inr (fromAcc, ws1) \<Rightarrow>
     (case MinBalanceRequired tx of
        Inl err \<Rightarrow> (False, Some err, ws1)
      | Inr minBalanceRequired \<Rightarrow>
          if Uint128_Cmp (acc_balance fromAcc) minBalanceRequired < 0
          then (False, Some ErrInsufficientBalance, ws1)
          else (False, None, ws1)))"


definition recordGas :: "Env \<Rightarrow> Transaction \<Rightarrow> Uint128 \<Rightarrow> WorldState \<Rightarrow> error + WorldState" where
  "recordGas env tx gasCnt ws =
     (case Uint128_Mul (tx_gasPrice tx) gasCnt of
        Inl err \<Rightarrow> Inl err
      | Inr gasCost \<Rightarrow> RecordGas (Address_String env (tx_from tx)) gasCost ws)"

definition transfer :: "bytes \<Rightarrow> bytes \<Rightarrow> Uint128 \<Rightarrow> WorldState \<Rightarrow> bool \<times> error option \<times> WorldState" where
  "transfer fromA toA val ws =
     (case GetOrCreateUserAccount fromA ws of
        Inl err \<Rightarrow> (True, Some err, ws)
      | Inr (fromAcc, ws1) \<Rightarrow>
     (case GetOrCreateUserAccount toA ws1 of
        Inl err \<Rightarrow> (True, Some err, ws1)
      | Inr (toAcc, ws2) \<Rightarrow>
     (case SubBalance fromA val ws2 of
        Inl err \<Rightarrow> (False, Some err, ws2)
      | Inr ws3 \<Rightarrow>
     (case AddBalance toA val ws3 of
        Inl err \<Rightarrow> (False, Some err, ws3)
      | Inr ws4 \<Rightarrow> (False, None, ws4)))))"

text \<open>The \<^verbatim>\<open>TransactionEvent\<close> that \<^verbatim>\<open>recordResultEvent\<close> builds before marshalling it.\<close>

definition resultEvent :: "Env \<Rightarrow> Transaction \<Rightarrow> Uint128 \<Rightarrow> error option \<Rightarrow> TransactionEvent" where
  "resultEvent env tx gasUsed err =
     (case err of
        Some e \<Rightarrow>
          \<lparr>te_Hash = Hash_String env (tx_hash tx), te_Status = TxExecutionFailed,
           te_GasUsed = Uint128_String env gasUsed, te_Error = Error_text env e\<rparr>
      | None \<Rightarrow>
          \<lparr>te_Hash = Hash_String env (tx_hash tx), te_Status = TxExecutionSuccess,
           te_GasUsed = Uint128_String env gasUsed, te_Error = []\<rparr>)"

definition recordResultEvent ::
  "Env \<Rightarrow> Transaction \<Rightarrow> Uint128 \<Rightarrow> error option \<Rightarrow> WorldState \<Rightarrow> error + WorldState" where
  "recordResultEvent env tx gasUsed err ws =
     (case json_Marshal env (resultEvent env tx gasUsed err) of
        Inl e \<Rightarrow> Inl e
      | Inr txData \<Rightarrow>
          RecordEvent (tx_hash tx)
            \<lparr>ev_Topic = TopicTransactionExecutionResult, ev_Data = txData\<rparr> ws)"

definition VerifyExecution ::
  "Env \<Rightarrow> Transaction \<Rightarrow> Block \<Rightarrow> WorldState \<Rightarrow> bool \<times> error option \<times> WorldState" where
  "VerifyExecution env tx block ws =
     (case checkBalance tx block ws of
        (giveback, Some err, ws0) \<Rightarrow> (giveback, Some err, ws0)
      | (giveback, None, ws0) \<Rightarrow>
     (case GasCountOfTxBase tx of
        Inl err \<Rightarrow> (False, Some err, ws0)
      | Inr gasUsed \<Rightarrow>
          if Uint128_Cmp (tx_gasLimit tx) gasUsed < 0
          then (False, Some ErrOutOfGasLimit, ws0)
          else
     (case LoadPayload env tx of
        Inl payloadErr \<Rightarrow>
          (case recordGas env tx gasUsed ws0 of
             Inl err \<Rightarrow> (False, Some err, ws0)
           | Inr ws1 \<Rightarrow>
          (case recordResultEvent env tx gasUsed (Some payloadErr) ws1 of
             Inl err \<Rightarrow> (True, Some err, ws1)
           | Inr ws2 \<Rightarrow> (False, None, ws2)))
      | Inr payload \<Rightarrow>
     (case Uint128_Add gasUsed (BaseGasCount payload) of
        Inl err \<Rightarrow> (False, Some err, ws0)
      | Inr gasUsed1 \<Rightarrow>
          if Uint128_Cmp (tx_gasLimit tx) gasUsed1 < 0
          then
            (case recordGas env tx (tx_gasLimit tx) ws0 of
               Inl err \<Rightarrow> (False, Some err, ws0)
             | Inr ws1 \<Rightarrow>
            (case recordResultEvent env tx (tx_gasLimit tx) (Some ErrOutOfGasLimit) ws1 of
               Inl err \<Rightarrow> (True, Some err, ws1)
             | Inr ws2 \<Rightarrow> (False, None, ws2)))
          else
     (case transfer (address (tx_from tx)) (address (tx_to tx)) (tx_value tx) ws0 of
        (giveback, Some err, ws1) \<Rightarrow> (giveback, Some err, ws1)
      | (giveback, None, ws1) \<Rightarrow>
     (case Execute payload tx block ws1 of
        (gasExecution, result, exeErr, ws2) \<Rightarrow>
     (case (if exeErr \<noteq> None then Reset ws2 else Inr ws2) of
        Inl err \<Rightarrow> (True, Some err, ws2)
      | Inr ws3 \<Rightarrow>
     (case Uint128_Add gasUsed1 gasExecution of
        Inl gasErr \<Rightarrow> (False, Some gasErr, ws3)
      | Inr allGas \<Rightarrow>
          if Uint128_Cmp (tx_gasLimit tx) allGas < 0
          then
            (case Reset ws3 of
               Inl err \<Rightarrow> (True, Some err, ws3)
             | Inr ws4 \<Rightarrow>
            (case recordGas env tx (tx_gasLimit tx) ws4 of
               Inl err \<Rightarrow> (False, Some err, ws4)
             | Inr ws5 \<Rightarrow>
            (case recordResultEvent env tx (tx_gasLimit tx) (Some ErrOutOfGasLimit) ws5 of
               Inl err \<Rightarrow> (True, Some err, ws5)
             | Inr ws6 \<Rightarrow> (False, None, ws6))))
          else
            (case recordGas env tx allGas ws3 of
               Inl err \<Rightarrow> (False, Some err, ws3)
             | Inr ws4 \<Rightarrow>
            (case recordResultEvent env tx allGas exeErr ws4 of
               Inl err \<Rightarrow> (True, Some err, ws4)
             | Inr ws5 \<Rightarrow> (False, None, ws5)))))))))))"

section \<open>Simulation\<close>




section \<open>Contract check\<close>

text \<open>
  The loop of \<^verbatim>\<open>CheckContract\<close> over the birth events: \<open>Inl\<close> is the return on an
  unmarshalling error, \<open>Inr\<close> the value of \<^verbatim>\<open>result\<close> when the loop ends or breaks.
\<close>

fun birthEventsResult :: "Env \<Rightarrow> Event list \<Rightarrow> error + bool" where
  "birthEventsResult env [] = Inr False"
| "birthEventsResult env (v # vs) =
     (if ev_Topic v = TopicTransactionExecutionResult
      then (case json_Unmarshal env (ev_Data v) of
              Inl err \<Rightarrow> Inl err
            | Inr txEvent \<Rightarrow>
                if te_Status txEvent = TxExecutionSuccess then Inr True
                else birthEventsResult env vs)
      else birthEventsResult env vs)"

definition CheckContract :: "Env \<Rightarrow> Address \<Rightarrow> WorldState \<Rightarrow> error + Account" where
  "CheckContract env addr ws =
     (case GetContractAccount (address addr) ws of
        Inl err \<Rightarrow> Inl err
      | Inr contract \<Rightarrow>
          if length (acc_birthPlace contract) = 0 then Inl ErrContractCheckFailed
          else
     (case FetchEvents (acc_birthPlace contract) ws of
        Inl err \<Rightarrow> Inl err
      | Inr birthEvents \<Rightarrow>
     (case birthEventsResult env birthEvents of
        Inl err \<Rightarrow> Inl err
      | Inr result \<Rightarrow>
          if \<not> result then Inl ErrContractCheckFailed else Inr contract)))"

section \<open>Message dispatcher\<close>

text \<open>
  A message of the network layer with the two methods the dispatcher calls, and a
  subscriber. Subscribers are held by pointer in the Go code: \<open>sub_id\<close> stands for the
  pointer's identity.
\<close>

record Message =
  msg_MessageType :: string
  msg_Hash :: string
  msg_Data :: bytes

record Subscriber =
  sub_id :: nat
  sub_MessageType :: string
  sub_DoFilter :: bool

text \<open>
  A buffered Go channel: its capacity, the messages in its buffer (oldest first), and
  the messages of the senders that are blocked on it, in the order in which they
  arrived. A send puts the message in the buffer when there is room and returns;
  on a full buffer the sender is parked with its message until a receiver makes room.
  \<open>chan_send\<close> returns whether the send has completed. \<open>chan_queue\<close> is everything
  the channel holds, in delivery order.
\<close>

record 'a Chan =
  chan_cap :: nat
  chan_buf :: "'a list"
  chan_sendq :: "'a list"

definition make_chan :: "nat \<Rightarrow> 'a Chan" where
  "make_chan n = \<lparr>chan_cap = n, chan_buf = [], chan_sendq = []\<rparr>"

definition chan_send :: "'a \<Rightarrow> 'a Chan \<Rightarrow> bool \<times> 'a Chan" where
  "chan_send x ch =
     (if length (chan_buf ch) < chan_cap ch then (True, ch\<lparr>chan_buf := chan_buf ch @ [x]\<rparr>)
      else (False, ch\<lparr>chan_sendq := chan_sendq ch @ [x]\<rparr>))"

definition chan_queue :: "'a Chan \<Rightarrow> 'a list" where
  "chan_queue ch = chan_buf ch @ chan_sendq ch"

text \<open>
  The cache of the \<^verbatim>\<open>golang-lru\<close> library, keys only (the dispatcher stores the hash
  as key and value), most recently added first. \<^verbatim>\<open>ContainsOrAdd\<close> reports whether the
  key is in the cache, without touching its recency, and adds it when it is not, which
  evicts the oldest key of a full cache.
\<close>

record LruCache =
  lru_size :: nat
  lru_keys :: "string list"

definition lru_New :: "nat \<Rightarrow> LruCache" where
  "lru_New n = \<lparr>lru_size = n, lru_keys = []\<rparr>"

definition lru_ContainsOrAdd :: "string \<Rightarrow> LruCache \<Rightarrow> bool \<times> LruCache" where
  "lru_ContainsOrAdd k c =
     (if k \<in> set (lru_keys c) then (True, c)
      else (False, c\<lparr>lru_keys := take (lru_size c) (k # lru_keys c)\<rparr>))"

record Dispatcher =
  subscribersMap :: "string \<Rightarrow> Subscriber set option"
  quitCh :: "bool Chan"
  receivedMessageCh :: "Message Chan"
  dispatchedMessages :: LruCache
  filters :: "string \<Rightarrow> bool option"

definition NewDispatcher :: Dispatcher where
  "NewDispatcher =
     \<lparr>subscribersMap = (\<lambda>mt. None),
      quitCh = make_chan 10,
      receivedMessageCh = make_chan 65536,
      dispatchedMessages = lru_New 51200,
      filters = (\<lambda>mt. None)\<rparr>"

text \<open>Reading a Go \<^verbatim>\<open>map[string]bool\<close> at a missing key gives \<^verbatim>\<open>false\<close>.\<close>

definition filterFlag :: "Dispatcher \<Rightarrow> string \<Rightarrow> bool" where
  "filterFlag dp mt = (case filters dp mt of None \<Rightarrow> False | Some b \<Rightarrow> b)"

text \<open>The bodies of the two \<^verbatim>\<open>range\<close> loops, and the loops.\<close>

definition register1 :: "Dispatcher \<Rightarrow> Subscriber \<Rightarrow> Dispatcher" where
  "register1 dp v =
     (let mt = sub_MessageType v;
          m = (case subscribersMap dp mt of None \<Rightarrow> {} | Some m0 \<Rightarrow> m0)
      in dp\<lparr>subscribersMap := (subscribersMap dp)(mt := Some (insert v m)),
            filters := (filters dp)(mt := Some (sub_DoFilter v))\<rparr>)"

fun Register :: "Dispatcher \<Rightarrow> Subscriber list \<Rightarrow> Dispatcher" where
  "Register dp [] = dp"
| "Register dp (v # vs) = Register (register1 dp v) vs"

definition deregister1 :: "Dispatcher \<Rightarrow> Subscriber \<Rightarrow> Dispatcher" where
  "deregister1 dp v =
     (let mt = sub_MessageType v in
      case subscribersMap dp mt of
        None \<Rightarrow> dp
      | Some m \<Rightarrow>
          dp\<lparr>subscribersMap := (subscribersMap dp)(mt := Some (m - {v})),
             filters := (filters dp)(mt := None)\<rparr>)"

fun Deregister :: "Dispatcher \<Rightarrow> Subscriber list \<Rightarrow> Dispatcher" where
  "Deregister dp [] = dp"
| "Deregister dp (v # vs) = Deregister (deregister1 dp v) vs"

text \<open>
  \<^verbatim>\<open>PutMessage\<close> ends in one of three ways: the message is ignored as a duplicate, it
  is put in the buffer of the input channel, or the caller is blocked in the send on the
  full channel.
\<close>

datatype PutOutcome = Ignored | Enqueued | BlockedOnSend

definition sendReceived :: "Dispatcher \<Rightarrow> Message \<Rightarrow> PutOutcome \<times> Dispatcher" where
  "sendReceived dp msg =
     (case chan_send msg (receivedMessageCh dp) of
        (done, ch) \<Rightarrow> (if done then Enqueued else BlockedOnSend, dp\<lparr>receivedMessageCh := ch\<rparr>))"

definition PutMessage :: "Dispatcher \<Rightarrow> Message \<Rightarrow> PutOutcome \<times> Dispatcher" where
  "PutMessage dp msg =
     (let hash = msg_Hash msg in
      if filterFlag dp (msg_MessageType msg)
      then (case lru_ContainsOrAdd hash (dispatchedMessages dp) of
              (exist, cache) \<Rightarrow>
                if exist = True then (Ignored, dp\<lparr>dispatchedMessages := cache\<rparr>)
                else sendReceived (dp\<lparr>dispatchedMessages := cache\<rparr>) msg)
      else sendReceived dp msg)"

section \<open>Auxiliary notions and sample inputs\<close>

text \<open>
  The predicates in which the properties below are stated, and the concrete values at
  which they are instantiated.
\<close>

definition addrA :: Address where
  "addrA = \<lparr>address = replicate 24 1\<rparr>"

definition addrB :: Address where
  "addrB = \<lparr>address = replicate 24 2\<rparr>"

definition emptyData :: WSData where
  "emptyData = \<lparr>accounts = (\<lambda>a. None), txs = (\<lambda>h. None), events = (\<lambda>h. []), gasConsumed = []\<rparr>"

definition dataWith :: "bytes \<Rightarrow> Account \<Rightarrow> WSData" where
  "dataWith a acc = emptyData\<lparr>accounts := (accounts emptyData)(a \<mapsto> acc)\<rparr>"

definition stateOf :: "WSData \<Rightarrow> WorldState" where
  "stateOf d = \<lparr>current = d, saved = d, io_error = (\<lambda>call. None)\<rparr>"

definition sampleTx :: Transaction where
  "sampleTx =
     \<lparr>tx_hash = [], tx_from = addrA, tx_to = addrB, tx_value = 5, tx_nonce = 6,
      tx_timestamp = 1500000000, tx_data = \<lparr>data_Type = ''binary'', data_Payload = [1, 2, 3]\<rparr>,
      tx_chainID = 1, tx_gasPrice = 1000000, tx_gasLimit = 200000, tx_alg = 1, tx_sign = []\<rparr>"

definition nonce5State :: WorldState where
  "nonce5State =
     stateOf (dataWith (address addrA) \<lparr>acc_balance = 0, acc_nonce = 5, acc_birthPlace = []\<rparr>)"

text \<open>
  An environment for the instances. Its payloads follow the spec's scenarios (a binary
  payload has no base gas and executes nothing; a call or deploy payload has base gas 60
  and consumes 10 units); its address parser accepts the 24-byte identifiers of the
  spec. The hasher, the marshallers and the string encodings are simple stand-ins for
  the external functions, and its signer recovery rejects every signature: the
  theorems hold for every environment, and the instances do not depend on what these
  compute.
\<close>

definition binaryPayload :: TxPayload where
  "binaryPayload = \<lparr>BaseGasCount = 0, Execute = (\<lambda>tx block ws. (0, [], None, ws))\<rparr>"

definition contractPayload :: TxPayload where
  "contractPayload = \<lparr>BaseGasCount = 60, Execute = (\<lambda>tx block ws. (10, [], None, ws))\<rparr>"

definition parse24 :: "bytes \<Rightarrow> error + Address" where
  "parse24 s = (if length s = 24 then Inr \<lparr>address = s\<rparr> else Inl ErrInvalidAddress)"

definition okEvent :: TransactionEvent where
  "okEvent = \<lparr>te_Hash = ''h'', te_Status = TxExecutionSuccess, te_GasUsed = ''20000'', te_Error = []\<rparr>"

definition failedEvent :: TransactionEvent where
  "failedEvent = \<lparr>te_Hash = ''h'', te_Status = TxExecutionFailed, te_GasUsed = ''20000'',
                  te_Error = ''out of gas limit''\<rparr>"

definition sampleEnv :: Env where
  "sampleEnv =
     \<lparr>sha3_256 = (\<lambda>bs. replicate 32 (of_nat (length bs))),
      proto_Marshal = (\<lambda>d. Inr (data_Payload d)),
      json_Marshal = (\<lambda>e. Inr (if te_Status e = TxExecutionSuccess then ''ok'' else ''failed'')),
      json_Unmarshal = (\<lambda>s. if s = ''ok'' then Inr okEvent
                              else if s = ''failed'' then Inr failedEvent
                              else Inl (ErrExternal ''invalid character'')),
      Address_String = (\<lambda>a. map (\<lambda>b. char_of (unat b)) (address a)),
      Hash_String = (\<lambda>h. map (\<lambda>b. char_of (unat b)) h),
      Uint128_String = (\<lambda>n. replicate n CHR ''1''),
      Error_text = (\<lambda>e. ''error''),
      AddressParseFromBytes = parse24,
      RecoverSignerFromSignature = (\<lambda>alg h sg. Inl (ErrExternal ''invalid signature'')),
      LoadBinaryPayload = (\<lambda>bs. Inr binaryPayload),
      LoadDeployPayload = (\<lambda>bs. Inr contractPayload),
      LoadCallPayload = (\<lambda>bs. Inr contractPayload),
      time_Now_Unix = 1500000000\<rparr>"

definition samplePb :: pbTransaction where
  "samplePb =
     \<lparr>pb_Hash = [], pb_From = replicate 24 1, pb_To = replicate 24 2,
      pb_Value = [0,0,0,0,0,0,0,0,0,0,0,0,0,0,0,5],
      pb_Nonce = 6, pb_Timestamp = 1500000000,
      pb_Data = Some \<lparr>data_Type = ''binary'', data_Payload = [1, 2, 3]\<rparr>,
      pb_ChainId = 1,
      pb_GasPrice = [0,0,0,0,0,0,0,0,0,0,0,0,0,0,0,0],
      pb_GasLimit = [0,0,0,0,0,0,0,0,0,0,0,0,0,0,0,0],
      pb_Alg = 1, pb_Sign = []\<rparr>"

text \<open>A signer that signs every hash, and one that fails.\<close>

definition goodSigner :: Signature where
  "goodSigner = \<lparr>sig_Sign = (\<lambda>h. Inr (h @ [1])), sig_Algorithm = 1\<rparr>"

definition failingSigner :: Signature where
  "failingSigner = \<lparr>sig_Sign = (\<lambda>h. Inl (ErrExternal ''key locked'')), sig_Algorithm = 1\<rparr>"

text \<open>
  A world state holding a contract whose birth place has two result events: the first
  reports success, the last reports failure.
\<close>

definition birthHash :: bytes where
  "birthHash = replicate 32 9"

definition contractAccount :: Account where
  "contractAccount = \<lparr>acc_balance = 0, acc_nonce = 0, acc_birthPlace = birthHash\<rparr>"

definition okThenFailed :: "Event list" where
  "okThenFailed =
     [\<lparr>ev_Topic = TopicTransactionExecutionResult, ev_Data = ''ok''\<rparr>,
      \<lparr>ev_Topic = TopicTransactionExecutionResult, ev_Data = ''failed''\<rparr>]"

definition contractState :: "Event list \<Rightarrow> WorldState" where
  "contractState evs =
     stateOf ((dataWith (address addrB) contractAccount)\<lparr>events := (\<lambda>h. if h = birthHash then evs else [])\<rparr>)"

text \<open>
  The reading of the spec for \<^verbatim>\<open>CheckContract\<close>: the last result event among the
  birth events decides, \<open>None\<close> when there is none.
\<close>

definition lastResultStatus :: "Env \<Rightarrow> Event list \<Rightarrow> (error + TransactionEvent) option" where
  "lastResultStatus env evs =
     (case filter (\<lambda>v. ev_Topic v = TopicTransactionExecutionResult) evs of
        [] \<Rightarrow> None
      | v # vs \<Rightarrow> Some (json_Unmarshal env (ev_Data (last (v # vs)))))"

text \<open>
  The subscribers registered for a message type, and the relation between the two maps
  of a dispatcher that \<^verbatim>\<open>NewDispatcher\<close> establishes and every operation keeps: a type
  with a filter flag has an entry in the subscribers map.
\<close>

definition subscribersOf :: "Dispatcher \<Rightarrow> string \<Rightarrow> Subscriber set" where
  "subscribersOf dp mt = (case subscribersMap dp mt of None \<Rightarrow> {} | Some m \<Rightarrow> m)"

definition flagsHaveEntries :: "Dispatcher \<Rightarrow> bool" where
  "flagsHaveEntries dp = (\<forall>mt. filters dp mt \<noteq> None \<longrightarrow> subscribersMap dp mt \<noteq> None)"

text \<open>Two subscribers of the same message type that both ask for filtering, and a message.\<close>

definition sub1 :: Subscriber where
  "sub1 = \<lparr>sub_id = 1, sub_MessageType = ''newblock'', sub_DoFilter = True\<rparr>"

definition sub2 :: Subscriber where
  "sub2 = \<lparr>sub_id = 2, sub_MessageType = ''newblock'', sub_DoFilter = True\<rparr>"

definition blockMsg :: Message where
  "blockMsg = \<lparr>msg_MessageType = ''newblock'', msg_Hash = ''abc'', msg_Data = [1]\<rparr>"

text \<open>
  A world state in which the sender holds a balance of \<open>10 ^ 12\<close>, a block on it, and a
  transaction whose gas limit is below its base gas of 20003.
\<close>

definition fundedState :: WorldState where
  "fundedState =
     stateOf (dataWith (address addrA)
       \<lparr>acc_balance = 1000000000000, acc_nonce = 5, acc_birthPlace = []\<rparr>)"

definition sampleBlock :: Block where
  "sampleBlock = \<lparr>worldState = fundedState\<rparr>"

definition lowLimitTx :: Transaction where
  "lowLimitTx = sampleTx\<lparr>tx_gasLimit := 20000\<rparr>"

text \<open>
  The out-of-gas scenario of the spec: a call transaction on a 3-byte payload (base gas
  20003, payload base gas 60) with gas limit \<open>20003 + 60 + 1\<close>, whose execution consumes
  10 units.
\<close>

definition callTx :: Transaction where
  "callTx = sampleTx\<lparr>tx_data := \<lparr>data_Type = ''call'', data_Payload = [1, 2, 3]\<rparr>,
                      tx_gasLimit := 20064\<rparr>"




text \<open>A world state in which the sender's nonce is the largest \<^verbatim>\<open>uint64\<close>.\<close>

definition maxNonceState :: WorldState where
  "maxNonceState =
     stateOf (dataWith (address addrA)
       \<lparr>acc_balance = 0, acc_nonce = 18446744073709551615, acc_birthPlace = []\<rparr>)"

section \<open>Properties of admission\<close>

lemma GetOrCreateUserAccount_nonce:
  assumes "io_error ws OpGetOrCreateUserAccount = None"
  shows "\<exists>a ws1. GetOrCreateUserAccount addr ws = Inr (a, ws1) \<and> acc_nonce a = currentNonceOf ws addr"
  using assms
  by (simp add: GetOrCreateUserAccount_def currentNonceOf_def newAccount_def split: option.splits)

text \<open>
  Claim C6. With no world-state I/O error and \<open>c\<close> the sender's current nonce,
  \<^verbatim>\<open>CheckTransaction\<close> returns \<^verbatim>\<open>(false, nil)\<close> exactly when \<^verbatim>\<open>tx.nonce == c + 1\<close>,
  \<^verbatim>\<open>(false, ErrSmallTransactionNonce)\<close> exactly when \<^verbatim>\<open>tx.nonce < c + 1\<close>, and
  \<^verbatim>\<open>(true, ErrLargeTransactionNonce)\<close> exactly when \<^verbatim>\<open>tx.nonce > c + 1\<close>. The
  comparisons and \<^verbatim>\<open>c + 1\<close> are those of \<^verbatim>\<open>uint64\<close>, as in the code.
\<close>

theorem CheckTransaction_nonce_trichotomy:
  assumes "io_error ws OpGetOrCreateUserAccount = None"
    and "c = currentNonceOf ws (address (tx_from tx))"
  shows "(outcome (CheckTransaction tx ws) = (False, None)) = (tx_nonce tx = c + 1)
       \<and> (outcome (CheckTransaction tx ws) = (False, Some ErrSmallTransactionNonce)) = (tx_nonce tx < c + 1)
       \<and> (outcome (CheckTransaction tx ws) = (True, Some ErrLargeTransactionNonce)) = (tx_nonce tx > c + 1)"
proof -
  obtain a ws1 where g: "GetOrCreateUserAccount (address (tx_from tx)) ws = Inr (a, ws1)"
    and n: "acc_nonce a = c"
    using GetOrCreateUserAccount_nonce [OF assms(1)] assms(2) by metis
  show ?thesis
    by (auto simp: CheckTransaction_def outcome_def g n Let_def)
qed

lemma nonce5State_io: "io_error nonce5State OpGetOrCreateUserAccount = None"
  by (simp add: nonce5State_def stateOf_def)

lemma nonce5State_nonce: "currentNonceOf nonce5State (address (tx_from sampleTx)) = 5"
  by (simp add: nonce5State_def stateOf_def currentNonceOf_def dataWith_def emptyData_def sampleTx_def)

text \<open>
  The scenario of the spec: the account's nonce is 5; nonce 6 is admitted, nonce 5 is
  too small and not given back, nonce 7 is too large and given back.
\<close>

theorem CheckTransaction_nonce_trichotomy_witness:
  "io_error nonce5State OpGetOrCreateUserAccount = None
   \<and> currentNonceOf nonce5State (address (tx_from sampleTx)) = 5
   \<and> outcome (CheckTransaction sampleTx nonce5State) = (False, None)
   \<and> outcome (CheckTransaction (sampleTx\<lparr>tx_nonce := 5\<rparr>) nonce5State) = (False, Some ErrSmallTransactionNonce)
   \<and> outcome (CheckTransaction (sampleTx\<lparr>tx_nonce := 7\<rparr>) nonce5State) = (True, Some ErrLargeTransactionNonce)"
proof -
  have f: "tx_from (sampleTx\<lparr>tx_nonce := n\<rparr>) = tx_from sampleTx" for n by simp
  have a: "tx_nonce sampleTx = 5 + 1" by (simp add: sampleTx_def)
  have b: "tx_nonce (sampleTx\<lparr>tx_nonce := 5\<rparr>) < 5 + 1" by simp
  have c: "tx_nonce (sampleTx\<lparr>tx_nonce := 7\<rparr>) > 5 + 1" by simp
  note t = CheckTransaction_nonce_trichotomy [OF nonce5State_io]
  show ?thesis
    using t [of 5 sampleTx] t [of 5 "sampleTx\<lparr>tx_nonce := 5\<rparr>"] t [of 5 "sampleTx\<lparr>tx_nonce := 7\<rparr>"]
      nonce5State_io nonce5State_nonce a b c
    by (simp only: f simp_thms)
qed

section \<open>Properties of the constructors\<close>

lemma be_nat_acc_bound: "be_nat_acc acc bs < (acc + 1) * 256 ^ length bs"
proof (induction bs arbitrary: acc)
  case Nil
  then show ?case by simp
next
  case (Cons b bs)
  have "unat b < 256"
    using unsigned_less [of b] by simp
  then have "acc * 256 + unat b + 1 \<le> (acc + 1) * 256" by simp
  then have "(acc * 256 + unat b + 1) * 256 ^ length bs \<le> (acc + 1) * 256 * 256 ^ length bs"
    by (rule mult_le_mono1)
  with Cons.IH [of "acc * 256 + unat b"]
  have "be_nat_acc (acc * 256 + unat b) bs < (acc + 1) * 256 * 256 ^ length bs"
    by (rule less_le_trans)
  then show ?case
    by (simp add: algebra_simps)
qed

lemma be_nat_bound: "be_nat bs < 256 ^ length bs"
  using be_nat_acc_bound [of 0 bs] by (simp add: be_nat_def)

lemma NewUint128FromFixedSizeByteSlice_bound:
  assumes "NewUint128FromFixedSizeByteSlice bs = Inr u"
  shows "u < 2 ^ 128"
proof -
  from assms have l: "length bs = 16" and u: "u = be_nat bs"
    by (auto simp: NewUint128FromFixedSizeByteSlice_def Uint128Bytes_def split: if_splits)
  have "be_nat bs < 256 ^ 16" using be_nat_bound [of bs] l by simp
  then show ?thesis using u by simp
qed

lemma NewTransaction_Inr:
  assumes "NewTransaction env chainID fromA toA val nonce payloadType payload gasPrice gasLimit = Inr tx"
  shows "gasPrice = Some (tx_gasPrice tx) \<and> gasLimit = Some (tx_gasLimit tx)
       \<and> 0 < tx_gasPrice tx \<and> 0 < tx_gasLimit tx
       \<and> data_Payload (tx_data tx) = payload \<and> length payload \<le> MaxDataPayLoadLength"
  using assms
  by (auto simp: NewTransaction_def Uint128_Cmp_def NewUint128_def
           split: option.splits if_splits)

lemma FromProto_None:
  assumes "FromProto env tx0 message = (None, tx)"
  shows "length (data_Payload (tx_data tx)) \<le> MaxDataPayLoadLength
       \<and> (\<exists>msg. message = MsgTransaction (Some msg)
            \<and> NewUint128FromFixedSizeByteSlice (pb_GasPrice msg) = Inr (tx_gasPrice tx)
            \<and> NewUint128FromFixedSizeByteSlice (pb_GasLimit msg) = Inr (tx_gasLimit tx))"
  using assms
  by (auto simp: FromProto_def Let_def
           split: ProtoMessage.splits option.splits sum.splits if_splits)

text \<open>
  Claim C3, amended. A transaction that \<^verbatim>\<open>NewTransaction\<close> returns has a positive gas
  price, a positive gas limit and a payload of at most 131072 bytes. A transaction that
  \<^verbatim>\<open>FromProto\<close> fills without error has a payload of at most 131072 bytes, and its gas
  price and gas limit are 128-bit numbers. Neither constructor compares the gas price or
  the gas limit with the maximum of 50000000000, and \<^verbatim>\<open>FromProto\<close> does not compare
  them with zero.
\<close>

theorem constructors_invariants:
  "(NewTransaction env chainID fromA toA val nonce payloadType payload gasPrice gasLimit = Inr tx
      \<longrightarrow> 0 < tx_gasPrice tx \<and> 0 < tx_gasLimit tx
          \<and> length (data_Payload (tx_data tx)) \<le> 131072)
   \<and> (FromProto env tx0 message = (None, tx')
      \<longrightarrow> length (data_Payload (tx_data tx')) \<le> 131072
          \<and> tx_gasPrice tx' < 2 ^ 128 \<and> tx_gasLimit tx' < 2 ^ 128)"
proof (intro conjI impI)
  assume n: "NewTransaction env chainID fromA toA val nonce payloadType payload gasPrice gasLimit = Inr tx"
  from NewTransaction_Inr [OF n] show "0 < tx_gasPrice tx" by simp
  from NewTransaction_Inr [OF n] show "0 < tx_gasLimit tx" by simp
  from NewTransaction_Inr [OF n] show "length (data_Payload (tx_data tx)) \<le> 131072"
    by (simp add: MaxDataPayLoadLength_def)
next
  assume f: "FromProto env tx0 message = (None, tx')"
  from FromProto_None [OF f] show "length (data_Payload (tx_data tx')) \<le> 131072"
    by (simp add: MaxDataPayLoadLength_def)
  from FromProto_None [OF f] show "tx_gasPrice tx' < 2 ^ 128"
    using NewUint128FromFixedSizeByteSlice_bound by blast
  from FromProto_None [OF f] show "tx_gasLimit tx' < 2 ^ 128"
    using NewUint128FromFixedSizeByteSlice_bound by blast
qed

lemma NewTransaction_sample:
  "NewTransaction sampleEnv 1 (Some addrA) (Some addrB) (Some 5) 6 ''binary'' [1, 2, 3]
     (Some 1000000) (Some 200000) = Inr (sampleTx\<lparr>tx_alg := 0\<rparr>)"
  by (simp add: NewTransaction_def sampleEnv_def sampleTx_def Uint128_Cmp_def NewUint128_def
        MaxDataPayLoadLength_def)

lemma be_nat_zero16: "be_nat [0,0,0,0,0,0,0,0,0,0,0,0,0,0,0,0] = 0"
  by (simp add: be_nat_def)

lemma be_nat_five16: "be_nat [0,0,0,0,0,0,0,0,0,0,0,0,0,0,0,5] = 5"
  by (simp add: be_nat_def)

lemma FromProto_samplePb:
  "FromProto sampleEnv sampleTx (MsgTransaction (Some samplePb))
     = (None, sampleTx\<lparr>tx_gasPrice := 0, tx_gasLimit := 0\<rparr>)"
  by (simp add: FromProto_def samplePb_def sampleEnv_def parse24_def sampleTx_def addrA_def addrB_def
        NewUint128FromFixedSizeByteSlice_def Uint128Bytes_def MaxDataPayLoadLength_def
        be_nat_zero16 be_nat_five16)

theorem constructors_invariants_witness:
  "NewTransaction sampleEnv 1 (Some addrA) (Some addrB) (Some 5) 6 ''binary'' [1, 2, 3]
     (Some 1000000) (Some 200000) = Inr (sampleTx\<lparr>tx_alg := 0\<rparr>)
   \<and> 0 < tx_gasPrice (sampleTx\<lparr>tx_alg := 0\<rparr>) \<and> 0 < tx_gasLimit (sampleTx\<lparr>tx_alg := 0\<rparr>)
   \<and> length (data_Payload (tx_data (sampleTx\<lparr>tx_alg := 0\<rparr>))) \<le> 131072
   \<and> FromProto sampleEnv sampleTx (MsgTransaction (Some samplePb))
       = (None, sampleTx\<lparr>tx_gasPrice := 0, tx_gasLimit := 0\<rparr>)
   \<and> length (data_Payload (tx_data (sampleTx\<lparr>tx_gasPrice := 0, tx_gasLimit := 0\<rparr>))) \<le> 131072
   \<and> tx_gasPrice (sampleTx\<lparr>tx_gasPrice := 0, tx_gasLimit := 0\<rparr>) < 2 ^ 128
   \<and> tx_gasLimit (sampleTx\<lparr>tx_gasPrice := 0, tx_gasLimit := 0\<rparr>) < 2 ^ 128"
  using constructors_invariants [of sampleEnv 1 "Some addrA" "Some addrB" "Some 5" 6 "''binary''"
      "[1, 2, 3]" "Some 1000000" "Some 200000" "sampleTx\<lparr>tx_alg := 0\<rparr>" sampleTx "MsgTransaction (Some samplePb)"
      "sampleTx\<lparr>tx_gasPrice := 0, tx_gasLimit := 0\<rparr>"]
    NewTransaction_sample FromProto_samplePb
  by simp

text \<open>
  The claim as stated fails: \<^verbatim>\<open>NewTransaction\<close> accepts a gas price of 50000000001,
  above the maximum, and \<^verbatim>\<open>FromProto\<close> accepts a gas price of zero.
\<close>

theorem constructors_invariants_counterexample:
  "(case NewTransaction sampleEnv 1 (Some addrA) (Some addrB) (Some 5) 6 ''binary'' [1, 2, 3]
           (Some 50000000001) (Some 200000) of
      Inl err \<Rightarrow> False
    | Inr tx \<Rightarrow> \<not> tx_gasPrice tx \<le> 50000000000)
   \<and> (case FromProto sampleEnv sampleTx (MsgTransaction (Some samplePb)) of
        (err, tx) \<Rightarrow> err = None \<and> \<not> 0 < tx_gasPrice tx)"
  by (simp add: FromProto_samplePb)
     (simp add: NewTransaction_def sampleEnv_def Uint128_Cmp_def NewUint128_def
        MaxDataPayLoadLength_def)

section \<open>Protobuf round trip\<close>

lemma length_be_bytes: "length (be_bytes k n) = k"
  by (induction k arbitrary: n) auto

lemma be_nat_acc_snoc: "be_nat_acc acc (bs @ [b]) = be_nat_acc acc bs * 256 + unat b"
  by (induction bs arbitrary: acc) auto

lemma unat_byte_of_mod: "unat (of_nat (n mod 256) :: byte) = n mod 256"
  by (simp add: unat_of_nat)

lemma be_nat_be_bytes: "be_nat (be_bytes k n) = n mod 256 ^ k"
proof (induction k arbitrary: n)
  case 0
  then show ?case by (simp add: be_nat_def)
next
  case (Suc k)
  have "be_nat (be_bytes (Suc k) n) = be_nat (be_bytes k (n div 256)) * 256 + n mod 256"
    by (simp add: be_nat_def be_nat_acc_snoc unat_byte_of_mod)
  also have "\<dots> = (n div 256) mod 256 ^ k * 256 + n mod 256"
    by (simp add: Suc.IH)
  also have "\<dots> = n mod 256 ^ Suc k"
    by (simp add: mod_mult2_eq mult.commute)
  finally show ?case .
qed

lemma Uint128_bytes_roundtrip:
  assumes "u < 2 ^ 128"
  shows "\<exists>bs. ToFixedSizeByteSlice u = Inr bs \<and> NewUint128FromFixedSizeByteSlice bs = Inr u"
proof -
  have "(256::nat) ^ 16 = 2 ^ 128" by simp
  then have "u mod 256 ^ 16 = u" using assms by simp
  then show ?thesis
    using assms
    by (simp add: ToFixedSizeByteSlice_def NewUint128FromFixedSizeByteSlice_def Uint128Bytes_def
          length_be_bytes be_nat_be_bytes)
qed

text \<open>
  Claim C7. For a well-formed transaction (both addresses are accepted by the address
  parser, which returns them unchanged; the payload is within the length bound; the three
  Uint128 fields are 128-bit values; the data is not \<^verbatim>\<open>nil\<close>, which the type of
  \<open>tx_data\<close> ensures), \<^verbatim>\<open>ToProto\<close> succeeds, and \<^verbatim>\<open>FromProto\<close> on its message
  succeeds and fills any receiver with a transaction equal to the original on every
  field.
\<close>

theorem FromProto_ToProto:
  assumes "AddressParseFromBytes env (address (tx_from tx)) = Inr (tx_from tx)"
    and "AddressParseFromBytes env (address (tx_to tx)) = Inr (tx_to tx)"
    and "length (data_Payload (tx_data tx)) \<le> MaxDataPayLoadLength"
    and "tx_value tx < 2 ^ 128" and "tx_gasPrice tx < 2 ^ 128" and "tx_gasLimit tx < 2 ^ 128"
  shows "\<exists>m. ToProto tx = Inr m \<and> FromProto env tx0 m = (None, tx)"
proof -
  obtain v where v: "ToFixedSizeByteSlice (tx_value tx) = Inr v"
      "NewUint128FromFixedSizeByteSlice v = Inr (tx_value tx)"
    using Uint128_bytes_roundtrip [OF assms(4)] by blast
  obtain p where p: "ToFixedSizeByteSlice (tx_gasPrice tx) = Inr p"
      "NewUint128FromFixedSizeByteSlice p = Inr (tx_gasPrice tx)"
    using Uint128_bytes_roundtrip [OF assms(5)] by blast
  obtain l where l: "ToFixedSizeByteSlice (tx_gasLimit tx) = Inr l"
      "NewUint128FromFixedSizeByteSlice l = Inr (tx_gasLimit tx)"
    using Uint128_bytes_roundtrip [OF assms(6)] by blast
  have "FromProto env tx0 (MsgTransaction (Some
            \<lparr>pb_Hash = tx_hash tx, pb_From = address (tx_from tx), pb_To = address (tx_to tx),
             pb_Value = v, pb_Nonce = tx_nonce tx, pb_Timestamp = tx_timestamp tx,
             pb_Data = Some (tx_data tx), pb_ChainId = tx_chainID tx, pb_GasPrice = p,
             pb_GasLimit = l, pb_Alg = ucast (tx_alg tx), pb_Sign = tx_sign tx\<rparr>)) = (None, tx)"
    using assms(1,2,3) by (simp add: FromProto_def v p l)
  then show ?thesis
    by (simp add: ToProto_def v p l)
qed

lemma sampleTx_addresses:
  "AddressParseFromBytes sampleEnv (address (tx_from sampleTx)) = Inr (tx_from sampleTx)
   \<and> AddressParseFromBytes sampleEnv (address (tx_to sampleTx)) = Inr (tx_to sampleTx)"
  by (simp add: sampleEnv_def sampleTx_def parse24_def addrA_def addrB_def)

lemma sampleTx_bounds:
  "length (data_Payload (tx_data sampleTx)) \<le> MaxDataPayLoadLength
   \<and> tx_value sampleTx < 2 ^ 128 \<and> tx_gasPrice sampleTx < 2 ^ 128 \<and> tx_gasLimit sampleTx < 2 ^ 128"
  by (simp add: sampleTx_def MaxDataPayLoadLength_def)

theorem FromProto_ToProto_witness:
  "AddressParseFromBytes sampleEnv (address (tx_from sampleTx)) = Inr (tx_from sampleTx)
   \<and> AddressParseFromBytes sampleEnv (address (tx_to sampleTx)) = Inr (tx_to sampleTx)
   \<and> length (data_Payload (tx_data sampleTx)) \<le> MaxDataPayLoadLength
   \<and> tx_value sampleTx < 2 ^ 128 \<and> tx_gasPrice sampleTx < 2 ^ 128 \<and> tx_gasLimit sampleTx < 2 ^ 128
   \<and> (\<exists>m. ToProto sampleTx = Inr m
          \<and> FromProto sampleEnv (sampleTx\<lparr>tx_nonce := 0, tx_sign := [7]\<rparr>) m = (None, sampleTx))"
  using FromProto_ToProto [of sampleEnv sampleTx "sampleTx\<lparr>tx_nonce := 0, tx_sign := [7]\<rparr>"]
    sampleTx_addresses sampleTx_bounds
  by blast

section \<open>Signing\<close>

text \<open>
  Claim C9. \<^verbatim>\<open>Sign\<close> is atomic on error. A \<^verbatim>\<open>nil\<close> signer yields
  \<^verbatim>\<open>ErrNilArgument\<close>; an error of \<^verbatim>\<open>calHash\<close> or of the signer is returned as it is;
  in all three cases the transaction is left unchanged. Only when both operations succeed
  are \<open>hash\<close>, \<open>alg\<close> and \<open>sign\<close> assigned (and nothing else), and \<^verbatim>\<open>Sign\<close>
  returns \<^verbatim>\<open>nil\<close>.
\<close>

theorem Sign_atomic:
  "Sign env tx None = (Some ErrNilArgument, tx)
   \<and> (calHash env tx = Inl e \<longrightarrow> Sign env tx (Some s) = (Some e, tx))
   \<and> (calHash env tx = Inr h \<and> sig_Sign s h = Inl e \<longrightarrow> Sign env tx (Some s) = (Some e, tx))
   \<and> (calHash env tx = Inr h \<and> sig_Sign s h = Inr sg \<longrightarrow>
        Sign env tx (Some s) = (None, tx\<lparr>tx_hash := h, tx_alg := sig_Algorithm s, tx_sign := sg\<rparr>))
   \<and> (Sign env tx signer = (Some e, tx') \<longrightarrow> tx' = tx)"
  by (auto simp: Sign_def split: option.splits sum.splits)

lemma calHash_sampleTx:
  "calHash sampleEnv sampleTx = Inr (replicate 32 119)"
  by (simp add: calHash_def sampleEnv_def sampleTx_def ToFixedSizeByteSlice_def length_be_bytes
        Uint128Bytes_def FromUint64_def FromInt64_def FromUint32_def addrA_def addrB_def)

lemma calHash_out_of_range:
  "calHash sampleEnv (sampleTx\<lparr>tx_value := 2 ^ 128\<rparr>) = Inl ErrUint128Overflow"
  by (simp add: calHash_def ToFixedSizeByteSlice_def)

theorem Sign_atomic_witness:
  "Sign sampleEnv sampleTx None = (Some ErrNilArgument, sampleTx)
   \<and> calHash sampleEnv (sampleTx\<lparr>tx_value := 2 ^ 128\<rparr>) = Inl ErrUint128Overflow
   \<and> Sign sampleEnv (sampleTx\<lparr>tx_value := 2 ^ 128\<rparr>) (Some goodSigner)
       = (Some ErrUint128Overflow, sampleTx\<lparr>tx_value := 2 ^ 128\<rparr>)
   \<and> calHash sampleEnv sampleTx = Inr (replicate 32 119)
   \<and> sig_Sign failingSigner (replicate 32 119) = Inl (ErrExternal ''key locked'')
   \<and> Sign sampleEnv sampleTx (Some failingSigner) = (Some (ErrExternal ''key locked''), sampleTx)
   \<and> sig_Sign goodSigner (replicate 32 119) = Inr (replicate 32 119 @ [1])
   \<and> Sign sampleEnv sampleTx (Some goodSigner)
       = (None, sampleTx\<lparr>tx_hash := replicate 32 119, tx_alg := sig_Algorithm goodSigner,
                         tx_sign := replicate 32 119 @ [1]\<rparr>)"
proof -
  have f: "sig_Sign failingSigner (replicate 32 119) = Inl (ErrExternal ''key locked'')"
    by (simp add: failingSigner_def)
  have g: "sig_Sign goodSigner (replicate 32 119) = Inr (replicate 32 119 @ [1])"
    by (simp add: goodSigner_def)
  show ?thesis
    using Sign_atomic [of sampleEnv sampleTx "ErrExternal ''key locked''" failingSigner
        "replicate 32 119" "replicate 32 119 @ [1]" None sampleTx]
      Sign_atomic [of sampleEnv "sampleTx\<lparr>tx_value := 2 ^ 128\<rparr>" ErrUint128Overflow goodSigner
        "replicate 32 119" "[]" None sampleTx]
      Sign_atomic [of sampleEnv sampleTx "ErrExternal ''key locked''" goodSigner
        "replicate 32 119" "replicate 32 119 @ [1]" None sampleTx]
      calHash_sampleTx calHash_out_of_range f g
    by simp
qed

section \<open>Contract check\<close>

text \<open>
  What the loop computes when every result event can be unmarshalled: whether some
  result event among the birth events reports success.
\<close>

lemma birthEventsResult_any:
  assumes "\<forall>v \<in> set evs. ev_Topic v = TopicTransactionExecutionResult
             \<longrightarrow> (\<exists>e. json_Unmarshal env (ev_Data v) = Inr e)"
  shows "birthEventsResult env evs =
           Inr (\<exists>v \<in> set evs. ev_Topic v = TopicTransactionExecutionResult
                  \<and> (\<exists>e. json_Unmarshal env (ev_Data v) = Inr e \<and> te_Status e = TxExecutionSuccess))"
  using assms
proof (induction evs)
  case Nil
  then show ?case by simp
next
  case (Cons v vs)
  then show ?case
    by (cases "ev_Topic v = TopicTransactionExecutionResult") auto
qed

text \<open>
  Claim C2 does not hold of the code. With the birth events \<open>okThenFailed\<close> the last
  result event reports failure, so the claim asks for \<^verbatim>\<open>ErrContractCheckFailed\<close>; the
  code stops at the first successful result event and returns the contract account.
\<close>

theorem CheckContract_first_success_wins:
  "lastResultStatus sampleEnv okThenFailed = Some (Inr failedEvent)
   \<and> te_Status failedEvent \<noteq> TxExecutionSuccess
   \<and> CheckContract sampleEnv addrB (contractState okThenFailed) = Inr contractAccount"
  by (simp add: lastResultStatus_def okThenFailed_def sampleEnv_def failedEvent_def okEvent_def
        TxExecutionSuccess_def TxExecutionFailed_def CheckContract_def GetContractAccount_def
        FetchEvents_def contractState_def stateOf_def dataWith_def emptyData_def addrB_def
        contractAccount_def birthHash_def)

section \<open>Properties of the dispatcher\<close>

lemma flagsHaveEntries_New: "flagsHaveEntries NewDispatcher"
  by (simp add: flagsHaveEntries_def NewDispatcher_def)

lemma flagsHaveEntries_register1: "flagsHaveEntries dp \<Longrightarrow> flagsHaveEntries (register1 dp v)"
  by (simp add: flagsHaveEntries_def register1_def Let_def)

lemma flagsHaveEntries_deregister1: "flagsHaveEntries dp \<Longrightarrow> flagsHaveEntries (deregister1 dp v)"
  by (auto simp: flagsHaveEntries_def deregister1_def Let_def split: option.splits)

lemma flagsHaveEntries_Register: "flagsHaveEntries dp \<Longrightarrow> flagsHaveEntries (Register dp vs)"
  by (induction vs arbitrary: dp) (auto simp: flagsHaveEntries_register1)

lemma flagsHaveEntries_Deregister: "flagsHaveEntries dp \<Longrightarrow> flagsHaveEntries (Deregister dp vs)"
  by (induction vs arbitrary: dp) (auto simp: flagsHaveEntries_deregister1)

lemma flagsHaveEntries_PutMessage: "flagsHaveEntries dp \<Longrightarrow> flagsHaveEntries (snd (PutMessage dp msg))"
  by (auto simp: flagsHaveEntries_def PutMessage_def sendReceived_def Let_def split: prod.splits)

lemma Register_snoc: "Register dp (vs @ [v]) = register1 (Register dp vs) v"
  by (induction vs arbitrary: dp) auto

lemma filterFlag_deregister1:
  assumes "flagsHaveEntries dp"
  shows "filterFlag (deregister1 dp s) (sub_MessageType s) = False"
  using assms
  by (auto simp: flagsHaveEntries_def deregister1_def filterFlag_def Let_def split: option.splits)

lemma subscribersOf_deregister1:
  "subscribersOf (deregister1 dp s) (sub_MessageType s) = subscribersOf dp (sub_MessageType s) - {s}"
  by (auto simp: deregister1_def subscribersOf_def Let_def split: option.splits)

lemma PutMessage_not_Ignored:
  assumes "filterFlag dp (msg_MessageType msg) = False"
  shows "fst (PutMessage dp msg) \<noteq> Ignored"
  using assms
  by (simp add: PutMessage_def sendReceived_def Let_def split: prod.splits)

text \<open>
  Claim C10. \<^verbatim>\<open>Deregister(s)\<close> removes the filter flag of \<open>s\<close>'s message type whatever
  the flag was and whoever else is registered: afterwards the flag reads \<^verbatim>\<open>false\<close>, every
  other subscriber of the type is still registered, and \<^verbatim>\<open>PutMessage\<close> ignores no
  message of that type. \<^verbatim>\<open>Register\<close> leaves the flag of a type at the
  \<^verbatim>\<open>DoFilter()\<close> value of the subscriber registered last.
\<close>

theorem Deregister_deletes_filter_flag:
  assumes "flagsHaveEntries dp"
  shows "filterFlag (Deregister dp [s]) (sub_MessageType s) = False
       \<and> subscribersOf (Deregister dp [s]) (sub_MessageType s)
           = subscribersOf dp (sub_MessageType s) - {s}
       \<and> (msg_MessageType msg = sub_MessageType s
            \<longrightarrow> fst (PutMessage (Deregister dp [s]) msg) \<noteq> Ignored)
       \<and> filterFlag (Register dp (vs @ [v])) (sub_MessageType v) = sub_DoFilter v"
proof -
  have a: "filterFlag (Deregister dp [s]) (sub_MessageType s) = False"
    using filterFlag_deregister1 [OF assms] by simp
  have b: "subscribersOf (Deregister dp [s]) (sub_MessageType s)
             = subscribersOf dp (sub_MessageType s) - {s}"
    using subscribersOf_deregister1 by simp
  have c: "msg_MessageType msg = sub_MessageType s
             \<longrightarrow> fst (PutMessage (Deregister dp [s]) msg) \<noteq> Ignored"
    using a PutMessage_not_Ignored by metis
  have d: "filterFlag (Register dp (vs @ [v])) (sub_MessageType v) = sub_DoFilter v"
    by (simp add: Register_snoc register1_def filterFlag_def Let_def)
  from a b c d show ?thesis by blast
qed

lemma registered_both:
  "flagsHaveEntries (Register NewDispatcher [sub1, sub2])
   \<and> filterFlag (Register NewDispatcher [sub1, sub2]) ''newblock'' = True
   \<and> subscribersOf (Register NewDispatcher [sub1, sub2]) ''newblock'' = {sub1, sub2}"
proof -
  have "flagsHaveEntries (Register NewDispatcher [sub1, sub2])"
    by (rule flagsHaveEntries_Register [OF flagsHaveEntries_New])
  moreover have "filterFlag (Register NewDispatcher [sub1, sub2]) ''newblock'' = True"
    by (simp add: register1_def NewDispatcher_def filterFlag_def sub1_def sub2_def Let_def)
  moreover have "subscribersOf (Register NewDispatcher [sub1, sub2]) ''newblock'' = {sub1, sub2}"
    by (auto simp: register1_def NewDispatcher_def subscribersOf_def sub1_def sub2_def Let_def)
  ultimately show ?thesis by blast
qed

text \<open>
  Two filtering subscribers of one type; after the first is deregistered the second is
  still registered and the flag is gone.
\<close>

theorem Deregister_deletes_filter_flag_witness:
  "flagsHaveEntries (Register NewDispatcher [sub1, sub2])
   \<and> filterFlag (Register NewDispatcher [sub1, sub2]) ''newblock'' = True
   \<and> filterFlag (Deregister (Register NewDispatcher [sub1, sub2]) [sub1]) ''newblock'' = False
   \<and> subscribersOf (Deregister (Register NewDispatcher [sub1, sub2]) [sub1]) ''newblock'' = {sub2}
   \<and> fst (PutMessage (Deregister (Register NewDispatcher [sub1, sub2]) [sub1]) blockMsg) \<noteq> Ignored
   \<and> filterFlag (Register (Register NewDispatcher [sub1, sub2]) ([sub1] @ [sub2\<lparr>sub_DoFilter := False\<rparr>]))
        ''newblock'' = False"
proof -
  have t: "sub_MessageType sub1 = ''newblock''" "msg_MessageType blockMsg = ''newblock''"
    "sub_MessageType (sub2\<lparr>sub_DoFilter := False\<rparr>) = ''newblock''"
    "sub_DoFilter (sub2\<lparr>sub_DoFilter := False\<rparr>) = False"
    by (simp_all add: sub1_def sub2_def blockMsg_def)
  have n: "{sub1, sub2} - {sub1} = {sub2}"
    by (auto simp: sub1_def sub2_def)
  have r: "flagsHaveEntries (Register NewDispatcher [sub1, sub2])"
    using registered_both by blast
  show ?thesis
    using Deregister_deletes_filter_flag [OF r, of sub1 blockMsg "[sub1]" "sub2\<lparr>sub_DoFilter := False\<rparr>"]
      registered_both
    by (simp only: t n simp_thms)
qed

lemma chan_send_queue:
  "count_list (chan_queue (snd (chan_send x ch))) y = count_list (chan_queue ch) y + (if y = x then 1 else 0)"
  by (simp add: chan_send_def chan_queue_def)

lemma chan_send_done: "fst (chan_send x ch) = (length (chan_buf ch) < chan_cap ch)"
  by (simp add: chan_send_def)

lemma chan_send_cap: "chan_cap (snd (chan_send x ch)) = chan_cap ch"
  by (simp add: chan_send_def)

lemma lru_ContainsOrAdd_exist: "fst (lru_ContainsOrAdd k c) = (k \<in> set (lru_keys c))"
  by (simp add: lru_ContainsOrAdd_def)

lemma lru_ContainsOrAdd_size:
  "lru_size (snd (lru_ContainsOrAdd k c)) = lru_size c
   \<and> (length (lru_keys c) \<le> lru_size c \<longrightarrow>
        length (lru_keys (snd (lru_ContainsOrAdd k c))) \<le> lru_size c)"
  by (simp add: lru_ContainsOrAdd_def)

lemma PutMessage_Ignored_iff:
  "(fst (PutMessage dp msg) = Ignored)
     = (filterFlag dp (msg_MessageType msg) \<and> msg_Hash msg \<in> set (lru_keys (dispatchedMessages dp)))"
  by (auto simp: PutMessage_def sendReceived_def Let_def lru_ContainsOrAdd_def split: prod.splits)

lemma PutMessage_channel:
  "receivedMessageCh (snd (PutMessage dp msg))
     = (if fst (PutMessage dp msg) = Ignored then receivedMessageCh dp
        else snd (chan_send msg (receivedMessageCh dp)))"
  by (auto simp: PutMessage_def sendReceived_def Let_def lru_ContainsOrAdd_def split: prod.splits)

lemma PutMessage_Enqueued_iff:
  "(fst (PutMessage dp msg) = Enqueued)
     = (fst (PutMessage dp msg) \<noteq> Ignored
        \<and> length (chan_buf (receivedMessageCh dp)) < chan_cap (receivedMessageCh dp))"
  by (auto simp: PutMessage_def sendReceived_def Let_def lru_ContainsOrAdd_def chan_send_def
           split: prod.splits)

lemma capacities_Register:
  "chan_cap (receivedMessageCh (Register dp vs)) = chan_cap (receivedMessageCh dp)
   \<and> lru_size (dispatchedMessages (Register dp vs)) = lru_size (dispatchedMessages dp)"
  by (induction vs arbitrary: dp) (auto simp: register1_def Let_def)

lemma capacities_Deregister:
  "chan_cap (receivedMessageCh (Deregister dp vs)) = chan_cap (receivedMessageCh dp)
   \<and> lru_size (dispatchedMessages (Deregister dp vs)) = lru_size (dispatchedMessages dp)"
  by (induction vs arbitrary: dp) (auto simp: deregister1_def Let_def split: option.splits)

lemma capacities_PutMessage:
  "chan_cap (receivedMessageCh (snd (PutMessage dp msg))) = chan_cap (receivedMessageCh dp)
   \<and> lru_size (dispatchedMessages (snd (PutMessage dp msg))) = lru_size (dispatchedMessages dp)"
  by (auto simp: PutMessage_def sendReceived_def Let_def lru_ContainsOrAdd_def chan_send_def
           split: prod.splits)

text \<open>
  Claim C8. \<^verbatim>\<open>PutMessage\<close> ignores the message exactly when the filter flag of its
  type is set and its hash is in the cache of dispatched messages; the channel is then
  left as it was. In every other case the message is sent on the input channel exactly
  once: the channel holds one more copy of it and nothing else changes in it. The send
  completes at once when the buffer has room and otherwise parks the caller until the
  dispatch loop makes room. The input channel is created with capacity 65536 and the
  cache with size 51200, and \<^verbatim>\<open>PutMessage\<close> keeps both.
\<close>

theorem PutMessage_ignores_iff_filtered_duplicate:
  "(fst (PutMessage dp msg) = Ignored)
     = (filterFlag dp (msg_MessageType msg) \<and> msg_Hash msg \<in> set (lru_keys (dispatchedMessages dp)))
   \<and> count_list (chan_queue (receivedMessageCh (snd (PutMessage dp msg)))) m
       = count_list (chan_queue (receivedMessageCh dp)) m
         + (if fst (PutMessage dp msg) = Ignored then 0 else if m = msg then 1 else 0)
   \<and> (fst (PutMessage dp msg) = Enqueued)
       = (fst (PutMessage dp msg) \<noteq> Ignored
          \<and> length (chan_buf (receivedMessageCh dp)) < chan_cap (receivedMessageCh dp))
   \<and> chan_cap (receivedMessageCh NewDispatcher) = 65536
   \<and> lru_size (dispatchedMessages NewDispatcher) = 51200
   \<and> chan_cap (receivedMessageCh (snd (PutMessage dp msg))) = chan_cap (receivedMessageCh dp)
   \<and> lru_size (dispatchedMessages (snd (PutMessage dp msg))) = lru_size (dispatchedMessages dp)"
proof -
  have q: "count_list (chan_queue (receivedMessageCh (snd (PutMessage dp msg)))) m
       = count_list (chan_queue (receivedMessageCh dp)) m
         + (if fst (PutMessage dp msg) = Ignored then 0 else if m = msg then 1 else 0)"
    by (simp add: PutMessage_channel chan_send_queue)
  have n: "chan_cap (receivedMessageCh NewDispatcher) = 65536
           \<and> lru_size (dispatchedMessages NewDispatcher) = 51200"
    by (simp add: NewDispatcher_def make_chan_def lru_New_def)
  show ?thesis
    using PutMessage_Ignored_iff [of dp msg] q PutMessage_Enqueued_iff [of dp msg] n
      capacities_PutMessage [of dp msg]
    by blast
qed

lemma filtering_dispatcher:
  "filterFlag (Register NewDispatcher [sub1]) ''newblock'' = True
   \<and> lru_keys (dispatchedMessages (Register NewDispatcher [sub1])) = []
   \<and> chan_queue (receivedMessageCh (Register NewDispatcher [sub1])) = []"
  by (simp add: register1_def NewDispatcher_def filterFlag_def sub1_def Let_def make_chan_def
        lru_New_def chan_queue_def)

text \<open>
  A first message of a filtered type is enqueued; the same message again is ignored and
  the channel still holds it once.
\<close>

theorem PutMessage_ignores_iff_filtered_duplicate_witness:
  "fst (PutMessage (Register NewDispatcher [sub1]) blockMsg) = Enqueued
   \<and> count_list (chan_queue (receivedMessageCh (snd (PutMessage (Register NewDispatcher [sub1]) blockMsg)))) blockMsg = 1
   \<and> fst (PutMessage (snd (PutMessage (Register NewDispatcher [sub1]) blockMsg)) blockMsg) = Ignored
   \<and> count_list (chan_queue (receivedMessageCh
        (snd (PutMessage (snd (PutMessage (Register NewDispatcher [sub1]) blockMsg)) blockMsg)))) blockMsg = 1"
proof -
  let ?d0 = "Register NewDispatcher [sub1]"
  let ?d1 = "snd (PutMessage ?d0 blockMsg)"
  have t: "msg_MessageType blockMsg = ''newblock''" "msg_Hash blockMsg = ''abc''"
    by (simp_all add: blockMsg_def)
  have room: "length (chan_buf (receivedMessageCh ?d0)) < chan_cap (receivedMessageCh ?d0)"
    by (simp add: register1_def NewDispatcher_def Let_def make_chan_def)
  have a: "fst (PutMessage ?d0 blockMsg) \<noteq> Ignored"
    using PutMessage_ignores_iff_filtered_duplicate [of ?d0 blockMsg blockMsg] filtering_dispatcher
    by (simp add: t)
  have b: "fst (PutMessage ?d0 blockMsg) = Enqueued"
    using PutMessage_ignores_iff_filtered_duplicate [of ?d0 blockMsg blockMsg] a room by blast
  have c: "count_list (chan_queue (receivedMessageCh ?d1)) blockMsg = 1"
    using PutMessage_ignores_iff_filtered_duplicate [of ?d0 blockMsg blockMsg] a filtering_dispatcher
    by simp
  have k: "filterFlag ?d1 ''newblock'' = True \<and> ''abc'' \<in> set (lru_keys (dispatchedMessages ?d1))"
    by (simp add: PutMessage_def sendReceived_def lru_ContainsOrAdd_def register1_def
          NewDispatcher_def filterFlag_def sub1_def blockMsg_def Let_def make_chan_def lru_New_def
          chan_send_def split: prod.splits)
  have d: "fst (PutMessage ?d1 blockMsg) = Ignored"
    using PutMessage_ignores_iff_filtered_duplicate [of ?d1 blockMsg blockMsg] k
    by (simp add: t)
  have e: "count_list (chan_queue (receivedMessageCh (snd (PutMessage ?d1 blockMsg)))) blockMsg = 1"
    using PutMessage_ignores_iff_filtered_duplicate [of ?d1 blockMsg blockMsg] d c
    by simp
  from b c d e show ?thesis by blast
qed

section \<open>Properties of execution\<close>

lemma GetOrCreateUserAccount_frame:
  assumes "GetOrCreateUserAccount addr ws = Inr (a, ws1)"
  shows "saved ws1 = saved ws \<and> io_error ws1 = io_error ws
       \<and> gasConsumed (current ws1) = gasConsumed (current ws)
       \<and> events (current ws1) = events (current ws)
       \<and> txs (current ws1) = txs (current ws)
       \<and> accounts (current ws1) addr = Some a"
  using assms
  by (auto simp: GetOrCreateUserAccount_def putAccount_def split: option.splits)

lemma checkBalance_passed:
  assumes "checkBalance tx block ws = (gb, None, ws0)"
  shows "saved ws0 = saved ws \<and> io_error ws0 = io_error ws
       \<and> gasConsumed (current ws0) = gasConsumed (current ws)
       \<and> events (current ws0) = events (current ws)
       \<and> txs (current ws0) = txs (current ws)
       \<and> tx_gasPrice tx * tx_gasLimit tx < 2 ^ 128"
proof -
  from assms obtain a where g: "GetOrCreateUserAccount (address (tx_from tx)) ws = Inr (a, ws0)"
    and m: "\<exists>r. MinBalanceRequired tx = Inr r"
    by (auto simp: checkBalance_def split: sum.splits if_splits)
  from m have "tx_gasPrice tx * tx_gasLimit tx < 2 ^ 128"
    by (auto simp: MinBalanceRequired_def Uint128_Mul_def Uint128_Validate_def
             split: sum.splits if_splits)
  with GetOrCreateUserAccount_frame [OF g] show ?thesis by simp
qed

lemma GasCountOfTxBase_value:
  assumes "length (data_Payload (tx_data tx)) < 2 ^ 63"
  shows "GasCountOfTxBase tx = Inr (20000 + 1 * length (data_Payload (tx_data tx)))"
proof -
  let ?n = "length (data_Payload (tx_data tx))"
  have "(2::nat) ^ 63 + 20000 < 2 ^ 128" by simp
  with assms have b: "?n < 2 ^ 128" "20000 + ?n < 2 ^ 128" by linarith+
  then show ?thesis
    by (simp add: GasCountOfTxBase_def DataLen_def NewUint128FromInt_def Uint128_Validate_def
          Uint128_Mul_def Uint128_Add_def MinGasCountPerTransaction_def GasCountPerByte_def)
qed

text \<open>
  Claim C5. When the balance precheck has passed and the base gas
  \<open>20000 + 1 * len(payload)\<close> exceeds the gas limit, \<^verbatim>\<open>VerifyExecution\<close> returns
  \<^verbatim>\<open>(false, ErrOutOfGasLimit)\<close>; the world state is the one the precheck left, in which
  no gas and no event has been recorded (and no stored transaction changed). The length
  of a Go slice is an \<^verbatim>\<open>int\<close>, hence below \<open>2 ^ 63\<close>.
\<close>

theorem VerifyExecution_base_gas_exceeds_limit:
  assumes "checkBalance tx block ws = (gb, None, ws0)"
    and "length (data_Payload (tx_data tx)) < 2 ^ 63"
    and "tx_gasLimit tx < 20000 + 1 * length (data_Payload (tx_data tx))"
  shows "GasCountOfTxBase tx = Inr (20000 + 1 * length (data_Payload (tx_data tx)))
       \<and> VerifyExecution env tx block ws = (False, Some ErrOutOfGasLimit, ws0)
       \<and> gasConsumed (current ws0) = gasConsumed (current ws)
       \<and> events (current ws0) = events (current ws)
       \<and> txs (current ws0) = txs (current ws)"
proof -
  note g = GasCountOfTxBase_value [OF assms(2)]
  have "VerifyExecution env tx block ws = (False, Some ErrOutOfGasLimit, ws0)"
    using assms(3) by (simp add: VerifyExecution_def assms(1) g Uint128_Cmp_def)
  with g checkBalance_passed [OF assms(1)] show ?thesis by simp
qed

lemma checkBalance_lowLimitTx:
  "checkBalance lowLimitTx sampleBlock fundedState = (False, None, fundedState)"
  by (simp add: checkBalance_def GetOrCreateUserAccount_def fundedState_def stateOf_def dataWith_def
        emptyData_def lowLimitTx_def sampleTx_def addrA_def MinBalanceRequired_def Uint128_Mul_def
        Uint128_Add_def Uint128_Validate_def Uint128_Cmp_def)

lemma lowLimitTx_payload:
  "length (data_Payload (tx_data lowLimitTx)) = 3 \<and> tx_gasLimit lowLimitTx = 20000"
  by (simp add: lowLimitTx_def sampleTx_def)

theorem VerifyExecution_base_gas_exceeds_limit_witness:
  "checkBalance lowLimitTx sampleBlock fundedState = (False, None, fundedState)
   \<and> length (data_Payload (tx_data lowLimitTx)) < 2 ^ 63
   \<and> tx_gasLimit lowLimitTx < 20000 + 1 * length (data_Payload (tx_data lowLimitTx))
   \<and> GasCountOfTxBase lowLimitTx = Inr 20003
   \<and> VerifyExecution sampleEnv lowLimitTx sampleBlock fundedState
       = (False, Some ErrOutOfGasLimit, fundedState)
   \<and> gasConsumed (current fundedState) = []
   \<and> events (current fundedState) = (\<lambda>h. [])"
proof -
  have h2: "length (data_Payload (tx_data lowLimitTx)) < 2 ^ 63"
    and h3: "tx_gasLimit lowLimitTx < 20000 + 1 * length (data_Payload (tx_data lowLimitTx))"
    by (simp_all add: lowLimitTx_payload)
  have e: "gasConsumed (current fundedState) = [] \<and> events (current fundedState) = (\<lambda>h. [])"
    by (simp add: fundedState_def stateOf_def dataWith_def emptyData_def)
  show ?thesis
    using VerifyExecution_base_gas_exceeds_limit [OF checkBalance_lowLimitTx h2 h3, of sampleEnv]
      checkBalance_lowLimitTx h2 h3 e
    by (simp add: lowLimitTx_payload)
qed

lemma transfer_frame:
  assumes "transfer fromA toA val ws0 = (gb, None, ws1)"
  shows "saved ws1 = saved ws0 \<and> io_error ws1 = io_error ws0"
  using assms
  by (auto simp: transfer_def GetOrCreateUserAccount_def SubBalance_def AddBalance_def
        putAccount_def split: sum.splits option.splits prod.splits)

lemma recordGas_ok:
  assumes "tx_gasPrice tx * gasCnt < 2 ^ 128" and "io_error ws OpRecordGas = None"
  shows "recordGas env tx gasCnt ws
           = Inr (ws\<lparr>current := (current ws)\<lparr>gasConsumed := gasConsumed (current ws)
                   @ [(Address_String env (tx_from tx), tx_gasPrice tx * gasCnt)]\<rparr>\<rparr>)"
  using assms
  by (simp add: recordGas_def RecordGas_def Uint128_Mul_def Uint128_Validate_def)

lemma recordResultEvent_ok:
  assumes "json_Marshal env (resultEvent env tx gasUsed err) = Inr txData"
    and "io_error ws OpRecordEvent = None"
  shows "recordResultEvent env tx gasUsed err ws
           = Inr (ws\<lparr>current := (current ws)\<lparr>events := (events (current ws))
                   (tx_hash tx := events (current ws) (tx_hash tx)
                      @ [\<lparr>ev_Topic = TopicTransactionExecutionResult, ev_Data = txData\<rparr>])\<rparr>\<rparr>)"
  using assms
  by (simp add: recordResultEvent_def RecordEvent_def)

lemma Reset_ok:
  assumes "io_error ws OpReset = None"
  shows "Reset ws = Inr (ws\<lparr>current := saved ws\<rparr>)"
  using assms by (simp add: Reset_def)

text \<open>
  The world state in which the out-of-gas return of step 7 leaves \<open>ws2\<close>, the state
  after the payload's execution: the stores are those of the checkpoint \<open>cp\<close>, with one
  gas record and one result event added.
\<close>

lemma out_of_gas_tail:
  assumes "io_error ws3 OpReset = None" "io_error ws3 OpRecordGas = None"
    "io_error ws3 OpRecordEvent = None"
    and "tx_gasPrice tx * tx_gasLimit tx < 2 ^ 128"
    and "json_Marshal env (resultEvent env tx (tx_gasLimit tx) (Some ErrOutOfGasLimit)) = Inr txData"
  shows "(case Reset ws3 of
            Inl err \<Rightarrow> (True, Some err, ws3)
          | Inr ws4 \<Rightarrow>
         (case recordGas env tx (tx_gasLimit tx) ws4 of
            Inl err \<Rightarrow> (False, Some err, ws4)
          | Inr ws5 \<Rightarrow>
         (case recordResultEvent env tx (tx_gasLimit tx) (Some ErrOutOfGasLimit) ws5 of
            Inl err \<Rightarrow> (True, Some err, ws5)
          | Inr ws6 \<Rightarrow> (False, None, ws6))))
         = (False, None,
            ws3\<lparr>current := (saved ws3)
              \<lparr>gasConsumed := gasConsumed (saved ws3)
                 @ [(Address_String env (tx_from tx), tx_gasPrice tx * tx_gasLimit tx)],
               events := (events (saved ws3))
                 (tx_hash tx := events (saved ws3) (tx_hash tx)
                    @ [\<lparr>ev_Topic = TopicTransactionExecutionResult, ev_Data = txData\<rparr>])\<rparr>\<rparr>)"
proof -
  let ?ws4 = "ws3\<lparr>current := saved ws3\<rparr>"
  let ?ws5 = "?ws4\<lparr>current := (current ?ws4)\<lparr>gasConsumed := gasConsumed (current ?ws4)
                   @ [(Address_String env (tx_from tx), tx_gasPrice tx * tx_gasLimit tx)]\<rparr>\<rparr>"
  have r: "Reset ws3 = Inr ?ws4"
    by (rule Reset_ok [OF assms(1)])
  have g: "recordGas env tx (tx_gasLimit tx) ?ws4 = Inr ?ws5"
    by (rule recordGas_ok [OF assms(4)]) (simp add: assms(2))
  have e: "recordResultEvent env tx (tx_gasLimit tx) (Some ErrOutOfGasLimit) ?ws5
             = Inr (?ws5\<lparr>current := (current ?ws5)\<lparr>events := (events (current ?ws5))
                   (tx_hash tx := events (current ?ws5) (tx_hash tx)
                      @ [\<lparr>ev_Topic = TopicTransactionExecutionResult, ev_Data = txData\<rparr>])\<rparr>\<rparr>)"
    by (rule recordResultEvent_ok [OF assms(5)]) (simp add: assms(3))
  show ?thesis
    by (simp only: r g e sum.case) simp
qed

text \<open>
  Claim C4. In \<^verbatim>\<open>VerifyExecution\<close>, when every earlier check has passed (the balance
  precheck, the base-gas and payload-base-gas checks with \<open>g1\<close> the gas after them, the
  value transfer, the checked addition \<open>g1 + gasExecution\<close>), no world-state operation
  and no marshalling fails, the payload's execution leaves the checkpoint where it was,
  and \<open>g1 + gasExecution\<close> exceeds the gas limit, the function returns
  \<^verbatim>\<open>(false, nil)\<close> and leaves the world state reset to the checkpoint taken before the
  value transfer, with exactly one gas record added, of \<open>gasPrice * gasLimit\<close> against
  the sender, and exactly one result event added under the transaction's hash, the
  marshalled failure event for \<^verbatim>\<open>ErrOutOfGasLimit\<close> with gas used \<open>gasLimit\<close>.
\<close>

theorem VerifyExecution_total_gas_exceeds_limit:
  assumes "checkBalance tx block ws = (gb0, None, ws0)"
    and "LoadPayload env tx = Inr payload"
    and "tx_gasLimit tx < 2 ^ 128"
    and "g1 = 20000 + length (data_Payload (tx_data tx)) + BaseGasCount payload"
    and "g1 \<le> tx_gasLimit tx"
    and "transfer (address (tx_from tx)) (address (tx_to tx)) (tx_value tx) ws0 = (gb1, None, ws1)"
    and "Execute payload tx block ws1 = (gasExecution, result, exeErr, ws2)"
    and "saved ws2 = saved ws1"
    and "io_error ws2 OpReset = None"
    and "io_error ws2 OpRecordGas = None"
    and "io_error ws2 OpRecordEvent = None"
    and "json_Marshal env (resultEvent env tx (tx_gasLimit tx) (Some ErrOutOfGasLimit)) = Inr txData"
    and "g1 + gasExecution < 2 ^ 128"
    and "tx_gasLimit tx < g1 + gasExecution"
  shows "VerifyExecution env tx block ws
           = (False, None,
              ws2\<lparr>current := (saved ws)
                \<lparr>gasConsumed := gasConsumed (saved ws)
                   @ [(Address_String env (tx_from tx), tx_gasPrice tx * tx_gasLimit tx)],
                 events := (events (saved ws))
                   (tx_hash tx := events (saved ws) (tx_hash tx)
                      @ [\<lparr>ev_Topic = TopicTransactionExecutionResult, ev_Data = txData\<rparr>])\<rparr>\<rparr>)
       \<and> te_Status (resultEvent env tx (tx_gasLimit tx) (Some ErrOutOfGasLimit)) = TxExecutionFailed
       \<and> te_GasUsed (resultEvent env tx (tx_gasLimit tx) (Some ErrOutOfGasLimit))
           = Uint128_String env (tx_gasLimit tx)
       \<and> te_Error (resultEvent env tx (tx_gasLimit tx) (Some ErrOutOfGasLimit))
           = Error_text env ErrOutOfGasLimit"
proof -
  let ?n = "length (data_Payload (tx_data tx))"
  have n: "?n < 2 ^ 128" "20000 + ?n < 2 ^ 128" "20000 + ?n + BaseGasCount payload < 2 ^ 128"
    using assms(3,4,5) by linarith+
  have g0: "GasCountOfTxBase tx = Inr (20000 + ?n)"
    using n
    by (simp add: GasCountOfTxBase_def DataLen_def NewUint128FromInt_def Uint128_Validate_def
          Uint128_Mul_def Uint128_Add_def MinGasCountPerTransaction_def GasCountPerByte_def)
  have c0: "\<not> Uint128_Cmp (tx_gasLimit tx) (20000 + ?n) < 0"
    using assms(4,5) by (simp add: Uint128_Cmp_def)
  have a1: "Uint128_Add (20000 + ?n) (BaseGasCount payload) = Inr g1"
    using n assms(4) by (simp add: Uint128_Add_def Uint128_Validate_def)
  have c1: "\<not> Uint128_Cmp (tx_gasLimit tx) g1 < 0"
    using assms(5) by (simp add: Uint128_Cmp_def)
  have a2: "Uint128_Add g1 gasExecution = Inr (g1 + gasExecution)"
    using assms(13) by (simp add: Uint128_Add_def Uint128_Validate_def)
  have c2: "Uint128_Cmp (tx_gasLimit tx) (g1 + gasExecution) < 0"
    using assms(14) by (simp add: Uint128_Cmp_def)
  have mul: "tx_gasPrice tx * tx_gasLimit tx < 2 ^ 128"
    using checkBalance_passed [OF assms(1)] by simp
  have cp: "saved ws2 = saved ws"
    using assms(8) transfer_frame [OF assms(6)] checkBalance_passed [OF assms(1)] by simp
  define ws3 where "ws3 = (if exeErr \<noteq> None then ws2\<lparr>current := saved ws2\<rparr> else ws2)"
  have r1: "(if exeErr \<noteq> None then Reset ws2 else Inr ws2) = Inr ws3"
    by (simp add: ws3_def Reset_ok [OF assms(9)])
  have io3: "io_error ws3 OpReset = None" "io_error ws3 OpRecordGas = None"
    "io_error ws3 OpRecordEvent = None" and s3: "saved ws3 = saved ws"
    and same: "ws3\<lparr>current := d\<rparr> = ws2\<lparr>current := d\<rparr>" for d
    using assms(9,10,11) cp by (simp_all add: ws3_def)
  note tail = out_of_gas_tail [OF io3 mul assms(12)]
  have "VerifyExecution env tx block ws
           = (False, None,
              ws2\<lparr>current := (saved ws)
                \<lparr>gasConsumed := gasConsumed (saved ws)
                   @ [(Address_String env (tx_from tx), tx_gasPrice tx * tx_gasLimit tx)],
                 events := (events (saved ws))
                   (tx_hash tx := events (saved ws) (tx_hash tx)
                      @ [\<lparr>ev_Topic = TopicTransactionExecutionResult, ev_Data = txData\<rparr>])\<rparr>\<rparr>)"
    unfolding VerifyExecution_def
    by (simp only: assms(1) assms(2) assms(6) assms(7) g0 c0 a1 c1 a2 c2 r1 tail s3 same
          prod.case option.case sum.case if_True if_False)
  then show ?thesis
    by (simp add: resultEvent_def)
qed
lemma checkBalance_callTx:
  "checkBalance callTx sampleBlock fundedState = (False, None, fundedState)"
  by (simp add: checkBalance_def GetOrCreateUserAccount_def fundedState_def stateOf_def dataWith_def
        emptyData_def callTx_def sampleTx_def addrA_def MinBalanceRequired_def Uint128_Mul_def
        Uint128_Add_def Uint128_Validate_def Uint128_Cmp_def)

lemma transfer_callTx:
  "transfer (address (tx_from callTx)) (address (tx_to callTx)) (tx_value callTx) fundedState
     = (False, None,
        snd (snd (transfer (address (tx_from callTx)) (address (tx_to callTx)) (tx_value callTx)
                    fundedState)))"
  by (simp add: transfer_def GetOrCreateUserAccount_def SubBalance_def AddBalance_def putAccount_def
        fundedState_def stateOf_def dataWith_def emptyData_def callTx_def sampleTx_def addrA_def
        addrB_def newAccount_def Uint128_Sub_def Uint128_Add_def Uint128_Validate_def)

lemma callTx_fields:
  "tx_from callTx = addrA \<and> tx_gasPrice callTx = 1000000 \<and> tx_gasLimit callTx = 20064
   \<and> length (data_Payload (tx_data callTx)) = 3 \<and> tx_hash callTx = []"
  by (simp add: callTx_def sampleTx_def)

lemma fundedState_fields:
  "saved fundedState = dataWith (address addrA)
       \<lparr>acc_balance = 1000000000000, acc_nonce = 5, acc_birthPlace = []\<rparr>
   \<and> io_error fundedState = (\<lambda>call. None)"
  by (simp add: fundedState_def stateOf_def)

text \<open>
  The scenario: the transaction is accepted with \<^verbatim>\<open>(false, nil)\<close>; gas for the whole
  limit is recorded at the gas price; the sender's balance is the one of the checkpoint
  and the receiver's account, created by the transfer, is gone.
\<close>

theorem VerifyExecution_total_gas_exceeds_limit_witness:
  "checkBalance callTx sampleBlock fundedState = (False, None, fundedState)
   \<and> LoadPayload sampleEnv callTx = Inr contractPayload
   \<and> 20000 + length (data_Payload (tx_data callTx)) + BaseGasCount contractPayload \<le> tx_gasLimit callTx
   \<and> tx_gasLimit callTx < 20000 + length (data_Payload (tx_data callTx)) + BaseGasCount contractPayload + 10
   \<and> outcome (VerifyExecution sampleEnv callTx sampleBlock fundedState) = (False, None)
   \<and> gasConsumed (current (snd (snd (VerifyExecution sampleEnv callTx sampleBlock fundedState))))
       = [(Address_String sampleEnv addrA, 20064000000)]
   \<and> events (current (snd (snd (VerifyExecution sampleEnv callTx sampleBlock fundedState)))) []
       = [\<lparr>ev_Topic = TopicTransactionExecutionResult, ev_Data = ''failed''\<rparr>]
   \<and> accounts (current (snd (snd (VerifyExecution sampleEnv callTx sampleBlock fundedState))))
        (address addrA) = Some \<lparr>acc_balance = 1000000000000, acc_nonce = 5, acc_birthPlace = []\<rparr>
   \<and> accounts (current (snd (snd (VerifyExecution sampleEnv callTx sampleBlock fundedState))))
        (address addrB) = None"
proof -
  define ws1 where
    "ws1 = snd (snd (transfer (address (tx_from callTx)) (address (tx_to callTx)) (tx_value callTx)
                       fundedState))"
  have t: "transfer (address (tx_from callTx)) (address (tx_to callTx)) (tx_value callTx) fundedState
             = (False, None, ws1)"
    unfolding ws1_def by (rule transfer_callTx)
  have fr: "saved ws1 = saved fundedState" "io_error ws1 = io_error fundedState"
    using transfer_frame [OF t] by simp_all
  have l: "LoadPayload sampleEnv callTx = Inr contractPayload"
    by (simp add: LoadPayload_def sampleEnv_def callTx_def TxPayloadBinaryType_def
          TxPayloadDeployType_def TxPayloadCallType_def)
  have b: "BaseGasCount contractPayload = 60"
    and x: "Execute contractPayload callTx sampleBlock ws1 = (10, [], None, ws1)"
    by (simp_all add: contractPayload_def)
  have h3: "tx_gasLimit callTx < 2 ^ 128"
    and h4: "20063 = 20000 + length (data_Payload (tx_data callTx)) + BaseGasCount contractPayload"
    and h5: "20063 \<le> tx_gasLimit callTx"
    and h14: "tx_gasLimit callTx < 20063 + 10"
    by (simp_all add: callTx_fields b)
  have io: "io_error ws1 OpReset = None" "io_error ws1 OpRecordGas = None"
    "io_error ws1 OpRecordEvent = None"
    by (simp_all add: fr fundedState_fields)
  have j: "json_Marshal sampleEnv (resultEvent sampleEnv callTx (tx_gasLimit callTx) (Some ErrOutOfGasLimit))
             = Inr ''failed''"
    by (simp add: sampleEnv_def resultEvent_def TxExecutionFailed_def TxExecutionSuccess_def)
  have h13: "(20063::nat) + 10 < 2 ^ 128" by simp
  note v = VerifyExecution_total_gas_exceeds_limit
      [OF checkBalance_callTx l h3 h4 h5 t x refl io j h13 h14]
  have r: "VerifyExecution sampleEnv callTx sampleBlock fundedState
             = (False, None,
                ws1\<lparr>current := (saved fundedState)
                  \<lparr>gasConsumed := gasConsumed (saved fundedState)
                     @ [(Address_String sampleEnv (tx_from callTx), tx_gasPrice callTx * tx_gasLimit callTx)],
                   events := (events (saved fundedState))
                     (tx_hash callTx := events (saved fundedState) (tx_hash callTx)
                        @ [\<lparr>ev_Topic = TopicTransactionExecutionResult, ev_Data = ''failed''\<rparr>])\<rparr>\<rparr>)"
    using v by blast
  have a: "address addrB \<noteq> address addrA"
    by (simp add: addrA_def addrB_def)
  show ?thesis
    using checkBalance_callTx l a
    by (simp add: r outcome_def callTx_fields b fundedState_fields dataWith_def emptyData_def)
qed

section \<open>Properties of simulation\<close>

















section \<open>The nonce comparison at the end of the range\<close>

text \<open>
  \<^verbatim>\<open>currentNonce+1\<close> is computed in \<^verbatim>\<open>uint64\<close>: when the sender's nonce is
  \<open>2 ^ 64 - 1\<close> the sum is 0, so \<^verbatim>\<open>CheckTransaction\<close> admits a transaction with nonce 0
  and reports every other nonce as too large.
\<close>

lemma CheckTransaction_nonce_wraps:
  "outcome (CheckTransaction (sampleTx\<lparr>tx_nonce := 0\<rparr>) maxNonceState) = (False, None)
   \<and> outcome (CheckTransaction (sampleTx\<lparr>tx_nonce := 7\<rparr>) maxNonceState)
       = (True, Some ErrLargeTransactionNonce)"
  by (simp add: CheckTransaction_def outcome_def GetOrCreateUserAccount_def maxNonceState_def
        stateOf_def dataWith_def emptyData_def sampleTx_def Let_def)

end
